theory Spec2Isabelle
  imports Complex_Main
begin

section \<open>Python primitives used by the retrieval pipeline\<close>

text \<open>
  Strings are character lists, Python's unbounded integers are \<open>int\<close>, floats are
  idealised as \<open>real\<close>.  The helpers below are the built-in operations the chunker,
  the embedder and the vector store call.
\<close>

definition newline :: char where
  "newline = CHR 0x0A"

text \<open>\<^verbatim>\<open>s.split('\n')\<close>: always at least one piece.\<close>

fun split_lines :: "string \<Rightarrow> string list" where
  "split_lines [] = [[]]"
| "split_lines (c # cs) =
     (if c = newline then [] # split_lines cs
      else (case split_lines cs of
              [] \<Rightarrow> [[c]]
            | l # ls \<Rightarrow> (c # l) # ls))"

text \<open>\<^verbatim>\<open>sep.join(parts)\<close>.\<close>

fun join :: "string \<Rightarrow> string list \<Rightarrow> string" where
  "join sep [] = []"
| "join sep [x] = x"
| "join sep (x # y # ys) = x @ sep @ join sep (y # ys)"

text \<open>\<^verbatim>\<open>xs[i:j]\<close> and \<^verbatim>\<open>xs[i:]\<close> with Python's treatment of negative and
  out-of-range bounds.\<close>

definition slice_bound :: "nat \<Rightarrow> int \<Rightarrow> nat" where
  "slice_bound n i = (if i < 0 then nat (max (int n + i) 0) else min (nat i) n)"

definition py_slice :: "'a list \<Rightarrow> int \<Rightarrow> int \<Rightarrow> 'a list" where
  "py_slice xs i j =
     (let lo = slice_bound (length xs) i; hi = slice_bound (length xs) j
      in take (hi - lo) (drop lo xs))"

definition py_slice_from :: "'a list \<Rightarrow> int \<Rightarrow> 'a list" where
  "py_slice_from xs i = drop (slice_bound (length xs) i) xs"

text \<open>\<^verbatim>\<open>str(n)\<close> for an integer.\<close>

fun str_nat :: "nat \<Rightarrow> string" where
  "str_nat n =
     (if n < 10 then [''0123456789'' ! n]
      else str_nat (n div 10) @ [''0123456789'' ! (n mod 10)])"

declare str_nat.simps [simp del]

definition str_int :: "int \<Rightarrow> string" where
  "str_int i = (if i < 0 then CHR ''-'' # str_nat (nat (- i)) else str_nat (nat i))"

text \<open>\<^verbatim>\<open>int(a / 50)\<close>: true division followed by truncation towards zero.\<close>

definition trunc_div :: "int \<Rightarrow> int \<Rightarrow> int" where
  "trunc_div a b = sgn a * sgn b * (\<bar>a\<bar> div \<bar>b\<bar>)"

text \<open>\<^verbatim>\<open>s.startswith(p)\<close> and \<^verbatim>\<open>s.count('\n')\<close>.\<close>

definition startswith :: "string \<Rightarrow> string \<Rightarrow> bool" where
  "startswith s p = (take (length p) s = p)"

definition count_newlines :: "string \<Rightarrow> int" where
  "count_newlines s = int (length (filter (\<lambda>c. c = newline) s))"

text \<open>Values that can sit in a metadata dictionary (\<^verbatim>\<open>Dict[str, Any]\<close>).
  \<open>PObj t s\<close> is an object of any other type, with truth value \<open>t\<close> and \<open>str()\<close>
  equal to \<open>s\<close>.\<close>

datatype pyval =
    PNone
  | PStr string
  | PInt int
  | PFloat real
  | PBool bool
  | PList "pyval list"
  | PDict "(string \<times> pyval) list"
  | PObj bool string

text \<open>Python truthiness (\<^verbatim>\<open>if value\<close>, \<^verbatim>\<open>not value\<close>).\<close>

fun truthy :: "pyval \<Rightarrow> bool" where
  "truthy PNone = False"
| "truthy (PStr s) = (s \<noteq> [])"
| "truthy (PInt i) = (i \<noteq> 0)"
| "truthy (PFloat x) = (x \<noteq> 0)"
| "truthy (PBool b) = b"
| "truthy (PList xs) = (xs \<noteq> [])"
| "truthy (PDict kvs) = (kvs \<noteq> [])"
| "truthy (PObj t s) = t"

text \<open>A dictionary keeps insertion order; assigning to a key that is present
  replaces the value where it stands.\<close>

fun dict_set :: "string \<Rightarrow> 'v \<Rightarrow> (string \<times> 'v) list \<Rightarrow> (string \<times> 'v) list" where
  "dict_set k v [] = [(k, v)]"
| "dict_set k v (p # ps) = (if fst p = k then (k, v) # ps else p # dict_set k v ps)"

definition dict_get :: "(string \<times> 'v) list \<Rightarrow> string \<Rightarrow> 'v option" where
  "dict_get d k = map_of d k"

section \<open>Data model (core/types.py)\<close>

record DocumentChunk =
  content :: string
  chunk_type :: string
  language :: "string option"
  file_path :: string
  start_line :: int
  end_line :: int
  element_name :: "string option"
  element_type :: "string option"
  metadata :: "(string \<times> pyval) list"

record CodeElement =
  el_name :: string
  el_element_type :: string
  el_start_line :: int
  el_end_line :: int
  el_docstring :: "string option"
  el_parameters :: "pyval list"
  el_return_type :: "string option"
  el_decorators :: "string list"
  el_parent_element :: "string option"
  el_children :: "string list"
  el_dependencies :: "string list"
  el_complexity_score :: "real option"

record AnalysisResult =
  success :: bool
  file_language :: "string option"
  code_elements :: "CodeElement list"

section \<open>Chunk extractor (embeddings/chunker.py)\<close>

datatype ChunkingStrategy =
  FUNCTION_BASED | CLASS_BASED | SEMANTIC_BLOCKS | SLIDING_WINDOW | HYBRID

record ChunkingConfig =
  strategy :: ChunkingStrategy
  max_chunk_size :: int
  min_chunk_size :: int
  overlap_size :: int
  include_context :: bool
  preserve_functions :: bool
  preserve_classes :: bool
  include_imports :: bool
  include_docstrings :: bool
  merge_small_functions :: bool

definition default_config :: ChunkingConfig where
  "default_config =
     \<lparr> strategy = HYBRID, max_chunk_size = 1000, min_chunk_size = 100,
       overlap_size = 100, include_context = True, preserve_functions = True,
       preserve_classes = True, include_imports = True, include_docstrings = True,
       merge_small_functions = True \<rparr>"

subsection \<open>Sliding window\<close>

definition window_chunk :: "string \<Rightarrow> string list \<Rightarrow> int \<Rightarrow> int \<Rightarrow> DocumentChunk" where
  "window_chunk fp lines first last_line =
     \<lparr> content = join [newline] lines, chunk_type = ''code'', language = None,
       file_path = fp, start_line = first, end_line = last_line,
       element_name = Some (''chunk_'' @ str_int first @ ''_'' @ str_int last_line),
       element_type = None,
       metadata = [(''chunking_method'', PStr ''sliding_window'')] \<rparr>"

record window_state =
  chunks :: "DocumentChunk list"
  current_chunk :: "string list"
  current_size :: int
  chunk_start_line :: int

text \<open>One pass of the \<^verbatim>\<open>for i, line in enumerate(lines, 1)\<close> loop body.\<close>

definition window_step :: "ChunkingConfig \<Rightarrow> string \<Rightarrow> int \<Rightarrow> string \<Rightarrow> window_state \<Rightarrow> window_state" where
  "window_step cfg fp i line st =
     (let cur = current_chunk st @ [line];
          sz = current_size st + int (length line) + 1
      in if sz \<ge> max_chunk_size cfg then
           (let chunk = window_chunk fp cur (chunk_start_line st) i;
                overlap_lines = max 1 (overlap_size cfg div 50);
                cur' = py_slice_from cur (- overlap_lines)
            in \<lparr> chunks = chunks st @ [chunk],
                 current_chunk = cur',
                 current_size = (\<Sum>l\<leftarrow>cur'. int (length l) + 1),
                 chunk_start_line = i - overlap_lines + 1 \<rparr>)
         else st\<lparr> current_chunk := cur, current_size := sz \<rparr>)"

fun window_loop :: "ChunkingConfig \<Rightarrow> string \<Rightarrow> int \<Rightarrow> string list \<Rightarrow> window_state \<Rightarrow> window_state" where
  "window_loop cfg fp i [] st = st"
| "window_loop cfg fp i (line # rest) st =
     window_loop cfg fp (i + 1) rest (window_step cfg fp i line st)"

definition sliding_window_chunking :: "ChunkingConfig \<Rightarrow> string \<Rightarrow> string \<Rightarrow> DocumentChunk list" where
  "sliding_window_chunking cfg text fp =
     (let lines = split_lines text;
          st = window_loop cfg fp 1 lines
                 \<lparr> chunks = [], current_chunk = [], current_size = 0, chunk_start_line = 1 \<rparr>
      in if current_chunk st \<noteq> [] then
           chunks st @ [window_chunk fp (current_chunk st) (chunk_start_line st)
                          (int (length lines))]
         else chunks st)"

subsection \<open>Errors\<close>

text \<open>Exceptions are values; a computation that may raise returns \<open>py_error + 'a\<close>.
  \<open>EmbeddingError\<close> carries its message and its \<open>model_name\<close> (core/exceptions.py).\<close>

datatype py_error =
    ValueError string
  | TypeError string
  | KeyError string
  | OSError string
  | ParsingError string
  | ValidationError string
  | ModelError string
  | BackendError string
  | EmbeddingError string "string option"
  | VectorStoreError string

subsection \<open>Extracting element text\<close>

definition extract_element_content :: "CodeElement \<Rightarrow> string list \<Rightarrow> string" where
  "extract_element_content element lines =
     (let start_idx = max 0 (el_start_line element - 1);
          end_idx = min (int (length lines)) (el_end_line element)
      in join [newline] (py_slice lines start_idx end_idx))"

definition imports_of :: "AnalysisResult \<Rightarrow> CodeElement list" where
  "imports_of result = filter (\<lambda>e. el_element_type e = ''import'') (code_elements result)"

definition add_context :: "ChunkingConfig \<Rightarrow> CodeElement \<Rightarrow> string list \<Rightarrow> AnalysisResult \<Rightarrow> string" where
  "add_context cfg element lines result =
     (let context_lines = 3;
          start_idx = max 0 (el_start_line element - 1 - context_lines);
          end_idx = min (int (length lines)) (el_end_line element + context_lines);
          body = join [newline] (py_slice lines start_idx end_idx);
          import_lines =
            concat (map (\<lambda>imp. py_slice lines (el_start_line imp - 1) (el_end_line imp))
              (filter (\<lambda>imp. list_ex (\<lambda>dep. dep \<in> set (el_dependencies element)) (el_dependencies imp))
                 (imports_of result)))
      in if include_imports cfg \<and> import_lines \<noteq> []
         then join [newline] import_lines @ [newline, newline] @ body
         else body)"

subsection \<open>Function-based and class-based strategies\<close>

definition opt_str :: "string option \<Rightarrow> pyval" where
  "opt_str s = (case s of None \<Rightarrow> PNone | Some t \<Rightarrow> PStr t)"

definition opt_float :: "real option \<Rightarrow> pyval" where
  "opt_float x = (case x of None \<Rightarrow> PNone | Some r \<Rightarrow> PFloat r)"

definition str_list :: "string list \<Rightarrow> pyval" where
  "str_list xs = PList (map PStr xs)"

text \<open>The docstring chunk that follows an element's own chunk when docstrings are
  enabled and the element has a non-empty docstring.\<close>

definition docstring_chunks ::
  "ChunkingConfig \<Rightarrow> AnalysisResult \<Rightarrow> string \<Rightarrow> CodeElement \<Rightarrow> string \<Rightarrow> string \<Rightarrow> DocumentChunk list" where
  "docstring_chunks cfg result fp e name_key doc_kind =
     (case el_docstring e of
        None \<Rightarrow> []
      | Some doc \<Rightarrow>
          if include_docstrings cfg \<and> doc \<noteq> [] then
            [\<lparr> content = doc, chunk_type = ''docstring'', language = file_language result,
               file_path = fp, start_line = el_start_line e,
               end_line = el_start_line e + count_newlines doc,
               element_name = Some (el_name e), element_type = Some (el_element_type e),
               metadata = [(name_key, PStr (el_name e)), (''docstring_type'', PStr doc_kind)] \<rparr>]
          else [])"

definition function_chunk ::
  "ChunkingConfig \<Rightarrow> AnalysisResult \<Rightarrow> string list \<Rightarrow> string \<Rightarrow> CodeElement \<Rightarrow> DocumentChunk" where
  "function_chunk cfg result lines fp func =
     \<lparr> content = (if include_context cfg then add_context cfg func lines result
                  else extract_element_content func lines),
       chunk_type = ''code'', language = file_language result, file_path = fp,
       start_line = el_start_line func, end_line = el_end_line func,
       element_name = Some (el_name func), element_type = Some (el_element_type func),
       metadata =
         [(''function_name'', PStr (el_name func)),
          (''complexity_score'', opt_float (el_complexity_score func)),
          (''parameters'', PList (el_parameters func)),
          (''return_type'', opt_str (el_return_type func)),
          (''docstring'', opt_str (el_docstring func)),
          (''decorators'', str_list (el_decorators func)),
          (''parent_class'', opt_str (el_parent_element func))] \<rparr>"

definition chunk_by_functions ::
  "ChunkingConfig \<Rightarrow> AnalysisResult \<Rightarrow> string \<Rightarrow> string \<Rightarrow> DocumentChunk list" where
  "chunk_by_functions cfg result text fp =
     (let lines = split_lines text;
          functions = filter (\<lambda>e. el_element_type e \<in> set [''function'', ''method''])
                        (code_elements result)
      in concat (map (\<lambda>func. function_chunk cfg result lines fp func
                          # docstring_chunks cfg result fp func ''function_name'' ''function_docstring'')
                   functions))"

definition class_chunk ::
  "AnalysisResult \<Rightarrow> string list \<Rightarrow> string \<Rightarrow> CodeElement \<Rightarrow> DocumentChunk" where
  "class_chunk result lines fp cls =
     \<lparr> content = extract_element_content cls lines,
       chunk_type = ''code'', language = file_language result, file_path = fp,
       start_line = el_start_line cls, end_line = el_end_line cls,
       element_name = Some (el_name cls), element_type = Some (el_element_type cls),
       metadata =
         [(''class_name'', PStr (el_name cls)),
          (''inheritance'', str_list (el_dependencies cls)),
          (''methods'', str_list (el_children cls)),
          (''decorators'', str_list (el_decorators cls)),
          (''complexity_score'', opt_float (el_complexity_score cls))] \<rparr>"

definition chunk_by_classes ::
  "ChunkingConfig \<Rightarrow> AnalysisResult \<Rightarrow> string \<Rightarrow> string \<Rightarrow> DocumentChunk list" where
  "chunk_by_classes cfg result text fp =
     (let lines = split_lines text;
          classes = filter (\<lambda>e. el_element_type e = ''class'') (code_elements result)
      in concat (map (\<lambda>cls. class_chunk result lines fp cls
                          # docstring_chunks cfg result fp cls ''class_name'' ''class_docstring'')
                   classes))"

subsection \<open>Semantic blocks\<close>

definition are_semantically_related :: "CodeElement \<Rightarrow> CodeElement \<Rightarrow> bool" where
  "are_semantically_related elem1 elem2 =
     (if el_parent_element elem1 \<noteq> None \<and> el_parent_element elem1 \<noteq> Some []
         \<and> el_parent_element elem1 = el_parent_element elem2 then True
      else if startswith (el_name elem1) (take 3 (el_name elem2))
              \<or> startswith (el_name elem2) (take 3 (el_name elem1)) then True
      else if \<bar>el_start_line elem1 - el_end_line elem2\<bar> \<le> 10 then True
      else if el_name elem2 \<in> set (el_dependencies elem1)
              \<or> el_name elem1 \<in> set (el_dependencies elem2) then True
      else False)"

text \<open>The inner loop of the grouping: collect the still unused elements related to
  \<open>element\<close>; the state is the group and the names used so far.\<close>

fun collect_related ::
  "CodeElement \<Rightarrow> CodeElement list \<Rightarrow> CodeElement list \<times> string list
     \<Rightarrow> CodeElement list \<times> string list" where
  "collect_related element [] st = st"
| "collect_related element (other # rest) (grp, used) =
     (if el_name other \<in> set used then collect_related element rest (grp, used)
      else if are_semantically_related element other
        then collect_related element rest (grp @ [other], el_name other # used)
      else collect_related element rest (grp, used))"

fun group_loop ::
  "CodeElement list \<Rightarrow> CodeElement list \<Rightarrow> CodeElement list list \<times> string list
     \<Rightarrow> CodeElement list list" where
  "group_loop elements [] (groups, used) = groups"
| "group_loop elements (element # rest) (groups, used) =
     (if el_name element \<in> set used then group_loop elements rest (groups, used)
      else
        (case collect_related element elements ([element], el_name element # used) of
           (grp, used') \<Rightarrow>
             if length grp > 1 \<or> el_element_type element \<in> set [''class'', ''function'']
             then group_loop elements rest (groups @ [grp], used')
             else group_loop elements rest (groups, used')))"

definition group_semantic_elements :: "CodeElement list \<Rightarrow> CodeElement list list" where
  "group_semantic_elements elements = group_loop elements elements ([], [])"

text \<open>\<^verbatim>\<open>min(...)\<close> and \<^verbatim>\<open>max(...)\<close> over a non-empty sequence; both raise
  \<open>ValueError\<close> on an empty one.\<close>

definition py_min :: "int list \<Rightarrow> py_error + int" where
  "py_min xs = (case xs of [] \<Rightarrow> Inl (ValueError ''min() arg is an empty sequence'')
                | y # ys \<Rightarrow> Inr (fold min ys y))"

definition py_max :: "int list \<Rightarrow> py_error + int" where
  "py_max xs = (case xs of [] \<Rightarrow> Inl (ValueError ''max() arg is an empty sequence'')
                | y # ys \<Rightarrow> Inr (fold max ys y))"

definition semantic_chunk ::
  "AnalysisResult \<Rightarrow> string list \<Rightarrow> string \<Rightarrow> CodeElement list \<Rightarrow> py_error + DocumentChunk" where
  "semantic_chunk result lines fp grp =
     (case py_min (map el_start_line grp) of
        Inl e \<Rightarrow> Inl e
      | Inr first \<Rightarrow>
        (case py_max (map el_end_line grp) of
           Inl e \<Rightarrow> Inl e
         | Inr final \<Rightarrow>
             Inr \<lparr> content = join [newline] (py_slice lines (first - 1) final),
                   chunk_type = ''code'', language = file_language result, file_path = fp,
                   start_line = first, end_line = final,
                   element_name =
                     Some (''semantic_block_'' @ str_int first @ ''_'' @ str_int final),
                   element_type = None,
                   metadata =
                     [(''semantic_group'', PBool True),
                      (''elements'',
                         PList (map (\<lambda>e. PDict [(''name'', PStr (el_name e)),
                                                   (''type'', PStr (el_element_type e))]) grp)),
                      (''group_size'', PInt (int (length grp)))] \<rparr>))"

fun semantic_chunks ::
  "AnalysisResult \<Rightarrow> string list \<Rightarrow> string \<Rightarrow> CodeElement list list
     \<Rightarrow> py_error + DocumentChunk list" where
  "semantic_chunks result lines fp [] = Inr []"
| "semantic_chunks result lines fp (grp # rest) =
     (if grp = [] then semantic_chunks result lines fp rest
      else (case semantic_chunk result lines fp grp of
              Inl e \<Rightarrow> Inl e
            | Inr c \<Rightarrow>
              (case semantic_chunks result lines fp rest of
                 Inl e \<Rightarrow> Inl e
               | Inr cs \<Rightarrow> Inr (c # cs))))"

definition chunk_semantic_blocks ::
  "AnalysisResult \<Rightarrow> string \<Rightarrow> string \<Rightarrow> py_error + DocumentChunk list" where
  "chunk_semantic_blocks result text fp =
     semantic_chunks result (split_lines text) fp
       (group_semantic_elements (code_elements result))"

subsection \<open>Hybrid strategy\<close>

definition is_complex :: "CodeElement \<Rightarrow> bool" where
  "is_complex c = (case el_complexity_score c of None \<Rightarrow> False | Some x \<Rightarrow> x \<noteq> 0 \<and> x > 10)"

definition complex_class_chunk ::
  "AnalysisResult \<Rightarrow> string list \<Rightarrow> string \<Rightarrow> CodeElement \<Rightarrow> DocumentChunk" where
  "complex_class_chunk result lines fp cls =
     \<lparr> content = extract_element_content cls lines,
       chunk_type = ''code'', language = file_language result, file_path = fp,
       start_line = el_start_line cls, end_line = el_end_line cls,
       element_name = Some (el_name cls), element_type = Some (el_element_type cls),
       metadata =
         [(''class_name'', PStr (el_name cls)),
          (''chunking_reason'', PStr ''complex_class''),
          (''complexity_score'', opt_float (el_complexity_score cls))] \<rparr>"

definition import_chunks ::
  "AnalysisResult \<Rightarrow> string list \<Rightarrow> string \<Rightarrow> DocumentChunk list" where
  "import_chunks result lines fp =
     (let imports = imports_of result;
          import_lines =
            concat (map (\<lambda>imp. py_slice lines (el_start_line imp - 1) (el_end_line imp)) imports)
      in if imports \<noteq> [] \<and> import_lines \<noteq> [] then
           [\<lparr> content = join [newline] import_lines,
              chunk_type = ''code'', language = file_language result, file_path = fp,
              start_line = 1, end_line = int (length import_lines),
              element_name = Some ''imports'', element_type = Some ''import'',
              metadata = [(''chunk_type'', PStr ''imports''),
                          (''import_count'', PInt (int (length imports)))] \<rparr>]
         else [])"

definition hybrid_chunking ::
  "ChunkingConfig \<Rightarrow> AnalysisResult \<Rightarrow> string \<Rightarrow> string \<Rightarrow> DocumentChunk list" where
  "hybrid_chunking cfg result text fp =
     (let lines = split_lines text in
        (if preserve_functions cfg then chunk_by_functions cfg result text fp else [])
      @ (if preserve_classes cfg then
           map (complex_class_chunk result lines fp)
             (filter is_complex
                (filter (\<lambda>e. el_element_type e = ''class'') (code_elements result)))
         else [])
      @ (if include_imports cfg then import_chunks result lines fp else []))"

subsection \<open>Post-processing\<close>

definition trim_chunk :: "ChunkingConfig \<Rightarrow> DocumentChunk \<Rightarrow> DocumentChunk" where
  "trim_chunk cfg chunk =
     (let lines = split_lines (content chunk);
          target_lines = trunc_div (max_chunk_size cfg) 50
      in if int (length lines) > target_lines then
           (let trimmed_lines = py_slice lines 0 target_lines
            in chunk\<lparr> content := join [newline] trimmed_lines,
                      end_line := start_line chunk + int (length trimmed_lines) - 1,
                      metadata :=
                        dict_set ''original_lines'' (PInt (int (length lines)))
                          (dict_set ''trimmed'' (PBool True) (metadata chunk)) \<rparr>)
         else chunk)"

definition create_merged_chunk :: "DocumentChunk list \<Rightarrow> py_error + DocumentChunk" where
  "create_merged_chunk cs =
     (case cs of
        [] \<Rightarrow> Inl (ValueError ''Cannot merge empty chunk list'')
      | c0 # _ \<Rightarrow>
        (case py_min (map start_line cs) of
           Inl e \<Rightarrow> Inl e
         | Inr first \<Rightarrow>
           (case py_max (map end_line cs) of
              Inl e \<Rightarrow> Inl e
            | Inr final \<Rightarrow>
                Inr \<lparr> content = join [newline, newline] (map content cs),
                      chunk_type = ''code'', language = language c0,
                      file_path = file_path c0,
                      start_line = first, end_line = final,
                      element_name = Some (''merged_'' @ str_int first @ ''_'' @ str_int final),
                      element_type = None,
                      metadata =
                        [(''merged_chunk'', PBool True),
                         (''original_chunks'', PInt (int (length cs))),
                         (''element_names'',
                            str_list (filter (\<lambda>n. n \<noteq> [])
                              (concat (map (\<lambda>c. case element_name c of None \<Rightarrow> [] | Some n \<Rightarrow> [n]) cs)))),
                         (''element_types'',
                            str_list (remdups (filter (\<lambda>n. n \<noteq> [])
                              (concat (map (\<lambda>c. case element_type c of None \<Rightarrow> [] | Some n \<Rightarrow> [n]) cs)))))]
                    \<rparr>)))"

text \<open>Python leaves the order of \<^verbatim>\<open>list(set(...))\<close> open; \<open>element_types\<close> above lists
  each type once, in order of first occurrence, and nothing below depends on that order.\<close>

text \<open>Emit the accumulated group of small chunks: a single chunk as it is, two or more
  as one merged chunk.\<close>

definition flush_group :: "DocumentChunk list \<Rightarrow> DocumentChunk list \<Rightarrow> py_error + DocumentChunk list" where
  "flush_group merged_chunks current_group =
     (case current_group of
        [] \<Rightarrow> Inr merged_chunks
      | [c] \<Rightarrow> Inr (merged_chunks @ [c])
      | _ \<Rightarrow> (case create_merged_chunk current_group of
                Inl e \<Rightarrow> Inl e
              | Inr m \<Rightarrow> Inr (merged_chunks @ [m])))"

fun merge_loop ::
  "ChunkingConfig \<Rightarrow> DocumentChunk list \<Rightarrow> DocumentChunk list \<Rightarrow> DocumentChunk list
     \<Rightarrow> py_error + DocumentChunk list" where
  "merge_loop cfg [] merged_chunks current_group = flush_group merged_chunks current_group"
| "merge_loop cfg (chunk # rest) merged_chunks current_group =
     (if int (length (content chunk)) < min_chunk_size cfg * 2
      then merge_loop cfg rest merged_chunks (current_group @ [chunk])
      else (case flush_group merged_chunks current_group of
              Inl e \<Rightarrow> Inl e
            | Inr merged' \<Rightarrow> merge_loop cfg rest (merged' @ [chunk]) []))"

definition merge_small_chunks :: "ChunkingConfig \<Rightarrow> DocumentChunk list \<Rightarrow> py_error + DocumentChunk list" where
  "merge_small_chunks cfg cs = merge_loop cfg cs [] []"

fun drop_and_trim :: "ChunkingConfig \<Rightarrow> DocumentChunk list \<Rightarrow> DocumentChunk list" where
  "drop_and_trim cfg [] = []"
| "drop_and_trim cfg (chunk # rest) =
     (if int (length (content chunk)) < min_chunk_size cfg
         \<and> element_type chunk \<notin> set [Some ''class'', Some ''function'']
      then drop_and_trim cfg rest
      else (if int (length (content chunk)) > max_chunk_size cfg
            then trim_chunk cfg chunk else chunk) # drop_and_trim cfg rest)"

definition post_process_chunks :: "ChunkingConfig \<Rightarrow> DocumentChunk list \<Rightarrow> py_error + DocumentChunk list" where
  "post_process_chunks cfg cs =
     (let processed_chunks = drop_and_trim cfg cs
      in if merge_small_functions cfg then merge_small_chunks cfg processed_chunks
         else Inr processed_chunks)"

subsection \<open>Chunking one file\<close>

text \<open>The parser and the file system are collaborators outside the chunker: a parser
  offers \<open>parse_file\<close> and \<open>read_file_content\<close>, the factory may have no parser for a
  file, and each call may raise.\<close>

record parser =
  parse_file :: "string \<Rightarrow> py_error + AnalysisResult"
  read_file_content :: "string \<Rightarrow> py_error + string"

record environment =
  create_parser_from_file :: "string \<Rightarrow> py_error + parser option"
  open_read :: "string \<Rightarrow> py_error + string"

definition fallback_chunking :: "environment \<Rightarrow> ChunkingConfig \<Rightarrow> string \<Rightarrow> py_error + DocumentChunk list" where
  "fallback_chunking env cfg fp =
     (case open_read env fp of
        Inl e \<Rightarrow> Inr []
      | Inr text \<Rightarrow> Inr (sliding_window_chunking cfg text fp))"

definition apply_strategy ::
  "ChunkingConfig \<Rightarrow> AnalysisResult \<Rightarrow> string \<Rightarrow> string \<Rightarrow> py_error + DocumentChunk list" where
  "apply_strategy cfg result text fp =
     (case strategy cfg of
        FUNCTION_BASED \<Rightarrow> Inr (chunk_by_functions cfg result text fp)
      | CLASS_BASED \<Rightarrow> Inr (chunk_by_classes cfg result text fp)
      | SEMANTIC_BLOCKS \<Rightarrow> chunk_semantic_blocks result text fp
      | SLIDING_WINDOW \<Rightarrow> Inr (sliding_window_chunking cfg text fp)
      | HYBRID \<Rightarrow> Inr (hybrid_chunking cfg result text fp))"

text \<open>The body of the \<^verbatim>\<open>try\<close> block of \<open>chunk_file\<close>; \<open>Inl\<close> is an exception that
  reaches the \<^verbatim>\<open>except\<close> clause.\<close>

definition chunk_file_try :: "environment \<Rightarrow> ChunkingConfig \<Rightarrow> string \<Rightarrow> py_error + DocumentChunk list" where
  "chunk_file_try env cfg fp =
     (case create_parser_from_file env fp of
        Inl e \<Rightarrow> Inl e
      | Inr None \<Rightarrow> fallback_chunking env cfg fp
      | Inr (Some p) \<Rightarrow>
        (case parse_file p fp of
           Inl e \<Rightarrow> Inl e
         | Inr result \<Rightarrow>
             if \<not> success result then fallback_chunking env cfg fp
             else
               (case read_file_content p fp of
                  Inl e \<Rightarrow> Inl e
                | Inr text \<Rightarrow>
                  (case apply_strategy cfg result text fp of
                     Inl e \<Rightarrow> Inl e
                   | Inr cs \<Rightarrow> post_process_chunks cfg cs))))"

definition chunk_file :: "environment \<Rightarrow> ChunkingConfig \<Rightarrow> string \<Rightarrow> py_error + DocumentChunk list" where
  "chunk_file env cfg fp =
     (case chunk_file_try env cfg fp of
        Inl e \<Rightarrow> fallback_chunking env cfg fp
      | Inr cs \<Rightarrow> Inr cs)"

subsection \<open>Vocabulary for the statements about post-processing\<close>

text \<open>A chunk that the first two post-processing steps keep as it is although it is
  below the minimum size: it stands for a class or a function and needs no trimming.\<close>

definition small_kept :: "ChunkingConfig \<Rightarrow> DocumentChunk \<Rightarrow> bool" where
  "small_kept cfg c =
     (element_type c \<in> set [Some ''class'', Some ''function'']
      \<and> int (length (content c)) < min_chunk_size cfg
      \<and> int (length (content c)) \<le> max_chunk_size cfg)"

text \<open>A chunk that is kept, not trimmed, and too large to join a merge group.\<close>

definition standalone :: "ChunkingConfig \<Rightarrow> DocumentChunk \<Rightarrow> bool" where
  "standalone cfg c =
     (min_chunk_size cfg * 2 \<le> int (length (content c))
      \<and> int (length (content c)) \<le> max_chunk_size cfg)"

text \<open>A chunk with given text, element type and line range, for concrete instances.\<close>

definition sample_chunk :: "string \<Rightarrow> string option \<Rightarrow> int \<Rightarrow> int \<Rightarrow> DocumentChunk" where
  "sample_chunk text ty first final =
     \<lparr> content = text, chunk_type = ''code'', language = Some ''python'',
       file_path = ''pkg/util.py'', start_line = first, end_line = final,
       element_name = None, element_type = ty, metadata = [] \<rparr>"

subsection \<open>Vocabulary for the statements about \<open>chunk_file\<close>\<close>

text \<open>No parser is available for the file, or parsing it fails: the factory or the
  parser raises, or the parser reports \<open>success = False\<close>.\<close>

definition parse_failed :: "environment \<Rightarrow> string \<Rightarrow> bool" where
  "parse_failed env fp =
     (case create_parser_from_file env fp of
        Inl e \<Rightarrow> True
      | Inr None \<Rightarrow> True
      | Inr (Some p) \<Rightarrow>
          (case parse_file p fp of Inl e \<Rightarrow> True | Inr result \<Rightarrow> \<not> success result))"

text \<open>Concrete surroundings for instances: a file system holding \<open>notes.txt\<close> only and
  no parser for it; and a parser for \<open>pkg/util.py\<close> that finds one function.\<close>

definition no_parser_env :: environment where
  "no_parser_env =
     \<lparr> create_parser_from_file = (\<lambda>fp. Inr None),
       open_read = (\<lambda>fp. if fp = ''notes.txt'' then Inr ''hello''
                          else Inl (OSError ''No such file or directory'')) \<rparr>"

definition sample_element :: CodeElement where
  "sample_element =
     \<lparr> el_name = ''f'', el_element_type = ''function'', el_start_line = 1, el_end_line = 1,
       el_docstring = None, el_parameters = [], el_return_type = None, el_decorators = [],
       el_parent_element = None, el_children = [], el_dependencies = [],
       el_complexity_score = Some 1 \<rparr>"

definition sample_result :: AnalysisResult where
  "sample_result =
     \<lparr> success = True, file_language = Some ''python'', code_elements = [sample_element] \<rparr>"

definition sample_parser :: parser where
  "sample_parser =
     \<lparr> parse_file = (\<lambda>fp. Inr sample_result),
       read_file_content = (\<lambda>fp. Inr ''def f(): return 1'') \<rparr>"

definition parser_env :: environment where
  "parser_env =
     \<lparr> create_parser_from_file = (\<lambda>fp. Inr (Some sample_parser)),
       open_read = (\<lambda>fp. Inr ''def f(): return 1'') \<rparr>"

section \<open>Vector index (embeddings/vector_store.py)\<close>

record EmbeddingResult =
  chunk :: DocumentChunk
  embedding :: "real list"
  model_name :: string
  embedding_dimension :: int

text \<open>Library functions the store calls: \<^verbatim>\<open>uuid.uuid5(uuid.NAMESPACE_DNS, s)\<close> and
  Python's \<^verbatim>\<open>str(value)\<close> on a metadata value.  Both are functions of their argument;
  nothing else about them is used.\<close>

record stdlib =
  uuid5 :: "string \<Rightarrow> string"
  str_of :: "pyval \<Rightarrow> string"

text \<open>\<^verbatim>\<open>x or default\<close> on an optional string.\<close>

definition or_else :: "string option \<Rightarrow> string \<Rightarrow> string" where
  "or_else x d = (case x of None \<Rightarrow> d | Some s \<Rightarrow> if s = [] then d else s)"

definition generate_chunk_id :: "stdlib \<Rightarrow> DocumentChunk \<Rightarrow> string" where
  "generate_chunk_id lib c =
     (let id_parts =
            [file_path c, str_int (start_line c), str_int (end_line c),
             or_else (element_name c) ''unnamed'', or_else (element_type c) ''unknown''];
          id_string = join ''|'' id_parts
      in uuid5 lib id_string)"

definition get_language_value :: "string option \<Rightarrow> string" where
  "get_language_value lang = (case lang of None \<Rightarrow> ''unknown'' | Some l \<Rightarrow> l)"

definition sanitize_metadata_value :: "stdlib \<Rightarrow> pyval \<Rightarrow> pyval" where
  "sanitize_metadata_value lib v =
     (case v of
        PNone \<Rightarrow> PStr ''null''
      | PStr s \<Rightarrow> v
      | PInt i \<Rightarrow> v
      | PFloat x \<Rightarrow> v
      | PBool b \<Rightarrow> v
      | PList xs \<Rightarrow> PStr (if xs \<noteq> [] then str_of lib v else ''[]'')
      | PDict kvs \<Rightarrow> PStr (if kvs \<noteq> [] then str_of lib v else ''{}'')
      | PObj t s \<Rightarrow> PStr (if t then str_of lib v else ''empty''))"

text \<open>One pass of the loop over \<^verbatim>\<open>chunk.metadata.items()\<close> in \<open>add_embeddings\<close>.\<close>

definition store_metadata_item ::
  "stdlib \<Rightarrow> string \<Rightarrow> pyval \<Rightarrow> (string \<times> pyval) list \<Rightarrow> (string \<times> pyval) list" where
  "store_metadata_item lib key v md =
     (if key \<in> set [''parameters'', ''methods'', ''dependencies''] \<and> \<not> truthy v then md
      else
        (let sanitized_value = sanitize_metadata_value lib v
         in if truthy sanitized_value
               \<and> sanitized_value \<notin> set [PStr ''null'', PStr ''[]'', PStr ''{}'', PStr ''empty'']
            then dict_set key sanitized_value md
            else md))"

definition base_metadata :: "EmbeddingResult \<Rightarrow> (string \<times> pyval) list" where
  "base_metadata r =
     [(''file_path'', PStr (file_path (chunk r))),
      (''start_line'', PInt (start_line (chunk r))),
      (''end_line'', PInt (end_line (chunk r))),
      (''element_name'', PStr (or_else (element_name (chunk r)) '''')),
      (''element_type'', PStr (or_else (element_type (chunk r)) '''')),
      (''chunk_type'', PStr (if chunk_type (chunk r) = [] then ''code'' else chunk_type (chunk r))),
      (''language'', PStr (get_language_value (language (chunk r)))),
      (''model_name'', PStr (model_name r)),
      (''embedding_dimension'', PInt (embedding_dimension r))]"

definition record_metadata :: "stdlib \<Rightarrow> EmbeddingResult \<Rightarrow> (string \<times> pyval) list" where
  "record_metadata lib r =
     fold (\<lambda>(key, v) md. store_metadata_item lib key v md) (metadata (chunk r)) (base_metadata r)"

record stored_record =
  stored_embedding :: "real list"
  stored_metadata :: "(string \<times> pyval) list"
  stored_document :: string

definition prepare_record :: "stdlib \<Rightarrow> EmbeddingResult \<Rightarrow> string \<times> stored_record" where
  "prepare_record lib r =
     (generate_chunk_id lib (chunk r),
      \<lparr> stored_embedding = embedding r,
        stored_metadata = record_metadata lib r,
        stored_document = (if length (content (chunk r)) > 1000
                           then take 1000 (content (chunk r)) else content (chunk r)) \<rparr>)"

text \<open>A collection: the stored records keyed by id, in insertion order.\<close>

type_synonym collection = "(string \<times> stored_record) list"

text \<open>
  Modelled from the spec: the vector backend (ChromaDB) is a library outside the
  repository; the repository only calls its \<open>collection.add\<close>.  The spec describes the
  backend's write operation as upsert-by-id (section 6) and says that adding a record
  with an existing id overwrites it in place (section 4.3).  A collection is therefore
  a sequence of records keyed by id, at most one per id, and \<open>collection_add\<close> writes
  the records of a batch in order, replacing a record whose id is present where it
  stands and appending it otherwise.
\<close>

definition collection_add :: "collection \<Rightarrow> (string \<times> stored_record) list \<Rightarrow> py_error + collection" where
  "collection_add coll batch = Inr (fold (\<lambda>(i, rec) c. dict_set i rec c) batch coll)"

definition collection_count :: "collection \<Rightarrow> nat" where
  "collection_count coll = length coll"

text \<open>\<open>add_embeddings\<close> returns its success flag and the collection after the call.\<close>

definition add_embeddings :: "stdlib \<Rightarrow> collection \<Rightarrow> EmbeddingResult list \<Rightarrow> bool \<times> collection" where
  "add_embeddings lib coll results =
     (if results = [] then (True, coll)
      else (case collection_add coll (map (prepare_record lib) results) of
              Inl e \<Rightarrow> (False, coll)
            | Inr coll' \<Rightarrow> (True, coll')))"

subsection \<open>Search\<close>

record SearchQuery =
  query_text :: string
  query_language :: "string option"
  query_element_types :: "string list"
  query_max_results :: int
  similarity_threshold :: real

record VectorStoreConfig =
  collection_name :: string
  max_results :: int

record SearchResult =
  result_chunk :: DocumentChunk
  similarity_score :: real
  rank :: int

text \<open>One row of the backend's answer: id, metadata, document text and distance.\<close>

record hit =
  hit_id :: string
  hit_metadata :: "(string \<times> pyval) list"
  hit_document :: string
  hit_distance :: real

text \<open>The backend's nearest-neighbour query, called with the query text, the result cap
  and at most one metadata predicate; it may raise.\<close>

type_synonym backend_query =
  "string \<Rightarrow> int \<Rightarrow> (string \<times> pyval) option \<Rightarrow> py_error + hit list"

definition where_clause :: "SearchQuery \<Rightarrow> (string \<times> pyval) option" where
  "where_clause q =
     (case query_element_types q of
        [t] \<Rightarrow> Some (''element_type'', PStr t)
      | _ \<Rightarrow>
          if query_language q \<noteq> None \<and> query_language q \<noteq> Some []
          then Some (''language'', PStr (get_language_value (query_language q)))
          else None)"

text \<open>The values the enumerations and the literal type of core/types.py admit.\<close>

definition language_values :: "string list" where
  "language_values =
     [''python'', ''javascript'', ''typescript'', ''java'', ''go'', ''rust'', ''cpp'', ''c'',
      ''csharp'', ''php'']"

definition element_type_values :: "string list" where
  "element_type_values =
     [''function'', ''class'', ''method'', ''variable'', ''constant'', ''import'', ''module'',
      ''interface'', ''enum'', ''struct'', ''namespace'', ''decorator'', ''comment'',
      ''docstring'']"

definition chunk_type_values :: "string list" where
  "chunk_type_values = [''code'', ''comment'', ''docstring'', ''documentation'']"

text \<open>Validation of an optional field that must hold one of the listed strings.\<close>

definition optional_member :: "string list \<Rightarrow> string \<Rightarrow> pyval option \<Rightarrow> py_error + string option" where
  "optional_member allowed field v =
     (case v of
        None \<Rightarrow> Inr None
      | Some PNone \<Rightarrow> Inr None
      | Some (PStr s) \<Rightarrow> if s \<in> set allowed then Inr (Some s) else Inl (ValidationError field)
      | Some _ \<Rightarrow> Inl (ValidationError field))"

definition required_int :: "string \<Rightarrow> (string \<times> pyval) list \<Rightarrow> py_error + int" where
  "required_int field md =
     (case dict_get md field of
        None \<Rightarrow> Inl (KeyError field)
      | Some (PInt i) \<Rightarrow> Inr i
      | Some _ \<Rightarrow> Inl (ValidationError field))"

text \<open>Rebuilding the \<open>DocumentChunk\<close> of a hit from its stored text and metadata.  The
  model's constructor validates the fields against their declared types; the store
  writes line numbers as integers, and other representations are rejected here.\<close>

definition reconstruct_chunk :: "hit \<Rightarrow> py_error + DocumentChunk" where
  "reconstruct_chunk h =
     (let md = hit_metadata h in
      case dict_get md ''file_path'' of
        None \<Rightarrow> Inl (KeyError ''file_path'')
      | Some (PStr fp) \<Rightarrow>
        (case required_int ''start_line'' md of
           Inl e \<Rightarrow> Inl e
         | Inr first \<Rightarrow>
           (case required_int ''end_line'' md of
              Inl e \<Rightarrow> Inl e
            | Inr final \<Rightarrow>
              (case optional_member chunk_type_values ''chunk_type''
                      (Some (case dict_get md ''chunk_type'' of None \<Rightarrow> PStr ''code'' | Some v \<Rightarrow> v)) of
                 Inl e \<Rightarrow> Inl e
               | Inr None \<Rightarrow> Inl (ValidationError ''chunk_type'')
               | Inr (Some ct) \<Rightarrow>
                 (case optional_member language_values ''language''
                         (Some (case dict_get md ''language'' of None \<Rightarrow> PStr ''unknown'' | Some v \<Rightarrow> v)) of
                    Inl e \<Rightarrow> Inl e
                  | Inr lang \<Rightarrow>
                    (case optional_member element_type_values ''element_type''
                            (dict_get md ''element_type'') of
                       Inl e \<Rightarrow> Inl e
                     | Inr ty \<Rightarrow>
                       (case dict_get md ''element_name'' of
                          None \<Rightarrow>
                            Inr \<lparr> content = hit_document h, chunk_type = ct, language = lang,
                                  file_path = fp, start_line = first, end_line = final,
                                  element_name = None, element_type = ty, metadata = md \<rparr>
                        | Some PNone \<Rightarrow>
                            Inr \<lparr> content = hit_document h, chunk_type = ct, language = lang,
                                  file_path = fp, start_line = first, end_line = final,
                                  element_name = None, element_type = ty, metadata = md \<rparr>
                        | Some (PStr n) \<Rightarrow>
                            Inr \<lparr> content = hit_document h, chunk_type = ct, language = lang,
                                  file_path = fp, start_line = first, end_line = final,
                                  element_name = Some n, element_type = ty, metadata = md \<rparr>
                        | Some _ \<Rightarrow> Inl (ValidationError ''element_name'')))))))
      | Some _ \<Rightarrow> Inl (TypeError ''expected str, bytes or os.PathLike object''))"

text \<open>The loop \<^verbatim>\<open>for i, chunk_id in enumerate(results["ids"][0])\<close>; \<open>i\<close> counts from 0
  and the rank is \<open>i + 1\<close>.\<close>

fun convert_hits :: "int \<Rightarrow> hit list \<Rightarrow> py_error + SearchResult list" where
  "convert_hits i [] = Inr []"
| "convert_hits i (h # hs) =
     (case reconstruct_chunk h of
        Inl e \<Rightarrow> Inl e
      | Inr c \<Rightarrow>
        (case convert_hits (i + 1) hs of
           Inl e \<Rightarrow> Inl e
         | Inr rs \<Rightarrow>
             Inr (\<lparr> result_chunk = c,
                    similarity_score = (if hit_distance h \<noteq> 0 then 1 - hit_distance h else 1),
                    rank = i + 1 \<rparr> # rs)))"

definition search :: "VectorStoreConfig \<Rightarrow> backend_query \<Rightarrow> SearchQuery \<Rightarrow> py_error + SearchResult list" where
  "search cfg backend q =
     (case backend (query_text q) (min (query_max_results q) (max_results cfg)) (where_clause q) of
        Inl e \<Rightarrow> Inl (VectorStoreError ''Search failed'')
      | Inr hits \<Rightarrow>
        (case convert_hits 0 hits of
           Inl e \<Rightarrow> Inl (VectorStoreError ''Search failed'')
         | Inr search_results \<Rightarrow>
             Inr (filter (\<lambda>r. similarity_score r \<ge> similarity_threshold q) search_results)))"

subsection \<open>Concrete instances for the vector index\<close>

definition sample_lib :: stdlib where
  "sample_lib = \<lparr> uuid5 = (\<lambda>s. ''uuid5:'' @ s), str_of = (\<lambda>v. ''<str>'') \<rparr>"

definition sample_embedding :: EmbeddingResult where
  "sample_embedding =
     \<lparr> chunk = sample_chunk ''def f(): pass'' (Some ''function'') 1 1,
       embedding = [1, 0], model_name = ''all-MiniLM-L6-v2'', embedding_dimension = 2 \<rparr>"

text \<open>A collection that already holds a record under the id of \<open>sample_embedding\<close>.\<close>

definition sample_collection :: collection where
  "sample_collection =
     [(''other-id'', \<lparr> stored_embedding = [0, 1], stored_metadata = [], stored_document = ''x'' \<rparr>),
      (generate_chunk_id sample_lib (chunk sample_embedding),
       \<lparr> stored_embedding = [0, 1], stored_metadata = [], stored_document = ''stale'' \<rparr>)]"

subsection \<open>Vocabulary and instances for the statements about search\<close>

text \<open>A hit whose stored metadata passes the validation of \<open>DocumentChunk\<close>.\<close>

definition reconstructible :: "hit \<Rightarrow> bool" where
  "reconstructible h = (case reconstruct_chunk h of Inl e \<Rightarrow> False | Inr c \<Rightarrow> True)"

text \<open>The similarity of a hit: one minus its distance.\<close>

definition score_of :: "hit \<Rightarrow> real" where
  "score_of h = 1 - hit_distance h"

text \<open>A backend over two stored rows that applies the predicate and the cap.\<close>

definition sample_hits :: "hit list" where
  "sample_hits =
     [\<lparr> hit_id = ''a'',
        hit_metadata = [(''file_path'', PStr ''pkg/util.py''), (''start_line'', PInt 1),
                        (''end_line'', PInt 3), (''element_name'', PStr ''add''),
                        (''element_type'', PStr ''function''), (''chunk_type'', PStr ''code''),
                        (''language'', PStr ''python'')],
        hit_document = ''def add(a, b): return a + b'', hit_distance = 1 / 10 \<rparr>,
      \<lparr> hit_id = ''b'',
        hit_metadata = [(''file_path'', PStr ''web/app.js''), (''start_line'', PInt 5),
                        (''end_line'', PInt 12), (''element_name'', PStr ''Calculator''),
                        (''element_type'', PStr ''class''), (''chunk_type'', PStr ''code''),
                        (''language'', PStr ''javascript'')],
        hit_document = ''class Calculator {}'', hit_distance = 1 / 2 \<rparr>]"

definition matches :: "(string \<times> pyval) option \<Rightarrow> hit \<Rightarrow> bool" where
  "matches w h = (case w of None \<Rightarrow> True | Some (k, v) \<Rightarrow> dict_get (hit_metadata h) k = Some v)"

definition sample_backend :: backend_query where
  "sample_backend qt n w = Inr (take (nat n) (filter (matches w) sample_hits))"

definition sample_config :: VectorStoreConfig where
  "sample_config = \<lparr> collection_name = ''code_embeddings'', max_results = 50 \<rparr>"

definition sample_query :: SearchQuery where
  "sample_query =
     \<lparr> query_text = ''add two numbers'', query_language = None, query_element_types = [],
       query_max_results = 10, similarity_threshold = 7 / 10 \<rparr>"

text \<open>Queries that carry a language filter together with two element kinds, and with
  one element kind.\<close>

definition mixed_query :: SearchQuery where
  "mixed_query =
     \<lparr> query_text = ''data structure or model'', query_language = Some ''python'',
       query_element_types = [''function'', ''class''],
       query_max_results = 5, similarity_threshold = 0 \<rparr>"

definition class_query :: SearchQuery where
  "class_query =
     \<lparr> query_text = ''data structure or model'', query_language = Some ''python'',
       query_element_types = [''class''],
       query_max_results = 5, similarity_threshold = 0 \<rparr>"

text \<open>The file paths of the results of a search, for comparing answers.\<close>

definition result_paths :: "py_error + SearchResult list \<Rightarrow> py_error + string list" where
  "result_paths res = map_sum id (map (\<lambda>r. file_path (result_chunk r))) res"

subsection \<open>Vocabulary for the statements about stored metadata\<close>

definition is_scalar :: "pyval \<Rightarrow> bool" where
  "is_scalar v = (case v of PStr s \<Rightarrow> True | PInt i \<Rightarrow> True | PFloat x \<Rightarrow> True
                  | PBool b \<Rightarrow> True | _ \<Rightarrow> False)"

definition is_container :: "pyval \<Rightarrow> bool" where
  "is_container v = (case v of PList xs \<Rightarrow> True | PDict kvs \<Rightarrow> True | _ \<Rightarrow> False)"

text \<open>The strings that \<open>add_embeddings\<close> refuses to store.\<close>

definition sentinels :: "string list" where
  "sentinels = [''null'', ''[]'', ''{}'', ''empty'']"

text \<open>An embedding record whose chunk carries the given metadata.\<close>

definition embedding_with :: "(string \<times> pyval) list \<Rightarrow> EmbeddingResult" where
  "embedding_with md =
     sample_embedding\<lparr> chunk := (chunk sample_embedding)\<lparr> metadata := md \<rparr> \<rparr>"

text \<open>The condition under which the loop of \<open>add_embeddings\<close> writes a pair: the
  pair is not skipped, and its sanitized value is truthy and none of the four strings.\<close>

definition is_stored :: "stdlib \<Rightarrow> string \<Rightarrow> pyval \<Rightarrow> bool" where
  "is_stored lib key v =
     (\<not> (key \<in> set [''parameters'', ''methods'', ''dependencies''] \<and> \<not> truthy v)
      \<and> truthy (sanitize_metadata_value lib v)
      \<and> sanitize_metadata_value lib v
            \<notin> set [PStr ''null'', PStr ''[]'', PStr ''{}'', PStr ''empty''])"

text \<open>Chunk metadata with a number, a list, \<open>None\<close>, the string \<open>null\<close> and \<open>False\<close>.\<close>

definition sample_metadata :: "(string \<times> pyval) list" where
  "sample_metadata =
     [(''complexity_score'', PFloat 15), (''inheritance'', PList [PStr ''Base'']),
      (''return_type'', PNone), (''docstring'', PStr ''null''), (''trimmed'', PBool False)]"

section \<open>Embedding generator (embeddings/embedder.py)\<close>

record EmbeddingConfig =
  normalize_embeddings :: bool
  cache_embeddings :: bool

text \<open>What \<open>embed_chunk\<close> calls and the model does not look into: Python's \<open>hash\<close>,
  the rendering of a chunk as model input, the model call, and the normalisation, which
  works on numpy floating-point arrays.  Each step may raise.\<close>

record embedder_ops =
  py_hash :: "string \<Rightarrow> int"
  prepare_text_for_embedding :: "DocumentChunk \<Rightarrow> py_error + string"
  generate_embedding :: "string \<Rightarrow> py_error + real list"
  normalize_embedding :: "real list \<Rightarrow> py_error + real list"

definition get_cache_key :: "embedder_ops \<Rightarrow> string \<Rightarrow> DocumentChunk \<Rightarrow> string" where
  "get_cache_key ops mname c =
     join ''|''
       [file_path c, str_int (start_line c), str_int (end_line c),
        or_else (element_name c) '''', mname, str_int (py_hash ops (content c))]"

text \<open>The constructor of \<open>EmbeddingError\<close> (core/exceptions.py) has the signature
  \<^verbatim>\<open>__init__(self, message, model_name=None)\<close>: a call with any other keyword
  raises \<open>TypeError\<close> instead of building the exception.\<close>

definition EmbeddingError_init :: "string \<Rightarrow> (string \<times> string) list \<Rightarrow> py_error + py_error" where
  "EmbeddingError_init message kwargs =
     (case filter (\<lambda>kw. fst kw \<noteq> ''model_name'') kwargs of
        [] \<Rightarrow> Inr (EmbeddingError message (dict_get kwargs ''model_name''))
      | kw # _ \<Rightarrow>
          Inl (TypeError (''__init__() got an unexpected keyword argument '' @ fst kw)))"

text \<open>\<^verbatim>\<open>f"{x}"\<close> for an optional string.\<close>

definition format_optional :: "string option \<Rightarrow> string" where
  "format_optional x = (case x of None \<Rightarrow> ''None'' | Some s \<Rightarrow> s)"

type_synonym embedding_cache = "(string \<times> EmbeddingResult) list"

text \<open>The \<^verbatim>\<open>try\<close> block of \<open>embed_chunk\<close>: the outcome and the cache afterwards.\<close>

definition embed_chunk_try ::
  "embedder_ops \<Rightarrow> EmbeddingConfig \<Rightarrow> string \<Rightarrow> embedding_cache \<Rightarrow> DocumentChunk
     \<Rightarrow> (py_error + EmbeddingResult) \<times> embedding_cache" where
  "embed_chunk_try ops cfg mname cache c =
     (let cache_key = get_cache_key ops mname c in
      case (if cache_embeddings cfg then dict_get cache cache_key else None) of
        Some cached_result \<Rightarrow> (Inr cached_result, cache)
      | None \<Rightarrow>
        (case prepare_text_for_embedding ops c of
           Inl e \<Rightarrow> (Inl e, cache)
         | Inr embedding_text \<Rightarrow>
           (case generate_embedding ops embedding_text of
              Inl e \<Rightarrow> (Inl e, cache)
            | Inr raw \<Rightarrow>
              (case (if normalize_embeddings cfg then normalize_embedding ops raw else Inr raw) of
                 Inl e \<Rightarrow> (Inl e, cache)
               | Inr vec \<Rightarrow>
                   (let result = \<lparr> chunk = c, embedding = vec, model_name = mname,
                                    embedding_dimension = int (length vec) \<rparr>
                    in (Inr result,
                        if cache_embeddings cfg then dict_set cache_key result cache
                        else cache))))))"

definition embed_chunk ::
  "embedder_ops \<Rightarrow> EmbeddingConfig \<Rightarrow> string \<Rightarrow> embedding_cache \<Rightarrow> DocumentChunk
     \<Rightarrow> (py_error + EmbeddingResult) \<times> embedding_cache" where
  "embed_chunk ops cfg mname cache c =
     (case embed_chunk_try ops cfg mname cache c of
        (Inr result, cache') \<Rightarrow> (Inr result, cache')
      | (Inl e, cache') \<Rightarrow>
          (case EmbeddingError_init
                  (''Failed to generate embedding for chunk '' @ format_optional (element_name c))
                  [(''chunk_info'', file_path c)] of
             Inl raised \<Rightarrow> (Inl raised, cache')
           | Inr err \<Rightarrow> (Inl err, cache')))"

text \<open>An embedder whose model call fails, for a concrete instance.\<close>

definition failing_ops :: embedder_ops where
  "failing_ops =
     \<lparr> py_hash = (\<lambda>s. int (length s)),
       prepare_text_for_embedding = (\<lambda>c. Inr (''Code:'' @ [newline] @ content c)),
       generate_embedding = (\<lambda>t. Inl (ModelError ''connection reset'')),
       normalize_embedding = (\<lambda>v. Inr v) \<rparr>"

section \<open>Properties\<close>

lemma split_lines_no_newline:
  "newline \<notin> set s \<Longrightarrow> split_lines s = [s]"
  by (induction s) auto

text \<open>
  Claim C6 (line ranges of produced chunks).  Every chunk is meant to satisfy
  \<open>1 \<le> start_line \<le> end_line \<le> number of lines\<close>.  The sliding window computes the
  next chunk's first line as \<open>i - overlap_lines + 1\<close> although the carried tail may hold
  fewer than \<open>overlap_lines\<close> lines: on a file that is a single line of 999 characters
  (the default budget of 1000 is reached on line 1, the overlap is 2 lines) the second
  chunk starts at line 0.
\<close>

theorem sliding_window_start_line_zero:
  "map (\<lambda>c. (start_line c, end_line c))
     (sliding_window_chunking default_config (replicate 999 CHR ''x'') ''bundle.min.js'')
   = [(1, 1), (0, 1)]"
proof -
  have s: "split_lines (replicate 999 CHR ''x'') = [replicate 999 CHR ''x'']"
    by (rule split_lines_no_newline) (simp add: newline_def)
  show ?thesis
    by (simp add: sliding_window_chunking_def s window_step_def default_config_def
        window_chunk_def py_slice_from_def slice_bound_def Let_def)
qed

subsection \<open>Merging of small chunks\<close>

lemma drop_and_trim_standalone:
  "list_all (\<lambda>c. standalone cfg c \<or> small_kept cfg c) cs \<Longrightarrow> drop_and_trim cfg cs = cs"
  by (induction cs) (auto simp: standalone_def small_kept_def)

lemma merge_loop_standalone:
  "list_all (standalone cfg) cs \<Longrightarrow>
   merge_loop cfg (cs @ rest) merged [] = merge_loop cfg rest (merged @ cs) []"
  by (induction cs arbitrary: merged) (auto simp: standalone_def flush_group_def)

lemma small_kept_lt: "small_kept cfg c \<Longrightarrow> int (length (content c)) < min_chunk_size cfg * 2"
  by (auto simp: small_kept_def)

lemma merge_loop_three:
  assumes "small_kept cfg a" "small_kept cfg b" "small_kept cfg c" "list_all (standalone cfg) post"
      and "create_merged_chunk [a, b, c] = Inr m"
  shows "merge_loop cfg ([a, b, c] @ post) merged [] = Inr (merged @ [m] @ post)"
proof -
  have step: "merge_loop cfg ([a, b, c] @ post) merged [] = merge_loop cfg post merged [a, b, c]"
    using assms(1-3) by (simp add: small_kept_lt)
  show ?thesis
  proof (cases post)
    case Nil
    then show ?thesis using step assms(5) by (simp add: flush_group_def)
  next
    case (Cons p ps)
    then have p: "standalone cfg p" and ps: "list_all (standalone cfg) ps"
      using assms(4) by simp_all
    have "merge_loop cfg post merged [a, b, c] = merge_loop cfg ps (merged @ [m] @ [p]) []"
      using Cons p assms(5) by (simp add: flush_group_def standalone_def)
    also have "\<dots> = merge_loop cfg [] ((merged @ [m] @ [p]) @ ps) []"
      using merge_loop_standalone [OF ps, of "[]" "merged @ [m] @ [p]"] by simp
    finally show ?thesis using step Cons by (simp add: flush_group_def)
  qed
qed

lemma create_merged_three:
  "\<exists>m. create_merged_chunk [a, b, c] = Inr m
     \<and> start_line m = min (start_line a) (min (start_line b) (start_line c))
     \<and> end_line m = max (end_line a) (max (end_line b) (end_line c))
     \<and> content m = content a @ [newline, newline] @ content b @ [newline, newline] @ content c
     \<and> dict_get (metadata m) ''merged_chunk'' = Some (PBool True)
     \<and> dict_get (metadata m) ''original_chunks'' = Some (PInt 3)"
  by (simp add: create_merged_chunk_def py_min_def py_max_def dict_get_def
      min.commute max.commute min.left_commute max.left_commute)

text \<open>
  Claim C3 as stated fails: post-processing first drops every chunk below
  \<open>min_chunk_size\<close> whose element type is neither class nor function.  Three consecutive
  one-character method chunks are dropped, and no merged chunk is produced.
\<close>

theorem merge_three_dropped_counterexample:
  "int (length (content (sample_chunk ''x'' (Some ''method'') 1 2))) < min_chunk_size default_config
   \<and> int (length (content (sample_chunk ''y'' (Some ''method'') 3 4))) < min_chunk_size default_config
   \<and> int (length (content (sample_chunk ''z'' (Some ''method'') 5 6))) < min_chunk_size default_config
   \<and> post_process_chunks default_config
        [sample_chunk ''x'' (Some ''method'') 1 2,
         sample_chunk ''y'' (Some ''method'') 3 4,
         sample_chunk ''z'' (Some ''method'') 5 6] = Inr []"
  by (simp add: post_process_chunks_def merge_small_chunks_def flush_group_def
      sample_chunk_def default_config_def)

text \<open>
  Claim C3, amended.  With merging enabled, let three consecutive chunks stand for
  classes or functions, each with content shorter than \<open>min_chunk_size\<close> and not longer
  than \<open>max_chunk_size\<close>, and let every other chunk of the sequence be standalone (at
  least twice \<open>min_chunk_size\<close> and at most \<open>max_chunk_size\<close> long).  Then
  post-processing returns the sequence with exactly one merged chunk in place of the
  three: its first line is the least and its last line the greatest of the members'
  bounds, its content is the members' contents separated by blank lines, and its
  metadata has \<open>merged_chunk = True\<close> and \<open>original_chunks = 3\<close>.
\<close>

theorem merge_three_small_chunks:
  assumes "merge_small_functions cfg"
    and "small_kept cfg a" "small_kept cfg b" "small_kept cfg c"
    and "list_all (standalone cfg) pre" "list_all (standalone cfg) post"
  shows "\<exists>m. post_process_chunks cfg (pre @ [a, b, c] @ post) = Inr (pre @ [m] @ post)
     \<and> start_line m = min (start_line a) (min (start_line b) (start_line c))
     \<and> end_line m = max (end_line a) (max (end_line b) (end_line c))
     \<and> content m = content a @ [newline, newline] @ content b @ [newline, newline] @ content c
     \<and> dict_get (metadata m) ''merged_chunk'' = Some (PBool True)
     \<and> dict_get (metadata m) ''original_chunks'' = Some (PInt 3)"
proof -
  obtain m where m: "create_merged_chunk [a, b, c] = Inr m"
     and props: "start_line m = min (start_line a) (min (start_line b) (start_line c))"
      "end_line m = max (end_line a) (max (end_line b) (end_line c))"
      "content m = content a @ [newline, newline] @ content b @ [newline, newline] @ content c"
      "dict_get (metadata m) ''merged_chunk'' = Some (PBool True)"
      "dict_get (metadata m) ''original_chunks'' = Some (PInt 3)"
    using create_merged_three [of a b c] by blast
  have all: "list_all (\<lambda>c. standalone cfg c \<or> small_kept cfg c) (pre @ [a, b, c] @ post)"
    using assms(2-6) by (auto simp: list_all_iff)
  have "post_process_chunks cfg (pre @ [a, b, c] @ post)
          = merge_loop cfg (pre @ [a, b, c] @ post) [] []"
    using assms(1) drop_and_trim_standalone [OF all]
    by (simp add: post_process_chunks_def merge_small_chunks_def)
  also have "\<dots> = merge_loop cfg ([a, b, c] @ post) ([] @ pre) []"
    by (rule merge_loop_standalone [OF assms(5)])
  also have "\<dots> = Inr (([] @ pre) @ [m] @ post)"
    by (rule merge_loop_three [OF assms(2-4) assms(6) m])
  finally show ?thesis using props by auto
qed

theorem merge_three_small_chunks_witness:
  "merge_small_functions default_config
   \<and> small_kept default_config (sample_chunk ''def f(): pass'' (Some ''function'') 12 12)
   \<and> small_kept default_config (sample_chunk ''class A: pass'' (Some ''class'') 3 4)
   \<and> small_kept default_config (sample_chunk ''def g(): pass'' (Some ''function'') 20 21)
   \<and> list_all (standalone default_config)
        [sample_chunk (replicate 250 CHR ''a'') (Some ''function'') 30 40]
   \<and> (\<exists>m. post_process_chunks default_config
              ([] @ [sample_chunk ''def f(): pass'' (Some ''function'') 12 12,
                     sample_chunk ''class A: pass'' (Some ''class'') 3 4,
                     sample_chunk ''def g(): pass'' (Some ''function'') 20 21]
                  @ [sample_chunk (replicate 250 CHR ''a'') (Some ''function'') 30 40])
            = Inr ([] @ [m] @ [sample_chunk (replicate 250 CHR ''a'') (Some ''function'') 30 40])
          \<and> start_line m = 3 \<and> end_line m = 21
          \<and> dict_get (metadata m) ''original_chunks'' = Some (PInt 3))"
proof -
  have h: "merge_small_functions default_config"
    "small_kept default_config (sample_chunk ''def f(): pass'' (Some ''function'') 12 12)"
    "small_kept default_config (sample_chunk ''class A: pass'' (Some ''class'') 3 4)"
    "small_kept default_config (sample_chunk ''def g(): pass'' (Some ''function'') 20 21)"
    "list_all (standalone default_config) []"
    "list_all (standalone default_config)
        [sample_chunk (replicate 250 CHR ''a'') (Some ''function'') 30 40]"
    by (simp_all add: default_config_def small_kept_def standalone_def sample_chunk_def)
  from merge_three_small_chunks [OF h] obtain m where
    "post_process_chunks default_config
       ([] @ [sample_chunk ''def f(): pass'' (Some ''function'') 12 12,
              sample_chunk ''class A: pass'' (Some ''class'') 3 4,
              sample_chunk ''def g(): pass'' (Some ''function'') 20 21]
           @ [sample_chunk (replicate 250 CHR ''a'') (Some ''function'') 30 40])
     = Inr ([] @ [m] @ [sample_chunk (replicate 250 CHR ''a'') (Some ''function'') 30 40])"
    "start_line m = min (start_line (sample_chunk ''def f(): pass'' (Some ''function'') 12 12))
        (min (start_line (sample_chunk ''class A: pass'' (Some ''class'') 3 4))
             (start_line (sample_chunk ''def g(): pass'' (Some ''function'') 20 21)))"
    "end_line m = max (end_line (sample_chunk ''def f(): pass'' (Some ''function'') 12 12))
        (max (end_line (sample_chunk ''class A: pass'' (Some ''class'') 3 4))
             (end_line (sample_chunk ''def g(): pass'' (Some ''function'') 20 21)))"
    "dict_get (metadata m) ''original_chunks'' = Some (PInt 3)"
    by blast
  then have "post_process_chunks default_config
       ([] @ [sample_chunk ''def f(): pass'' (Some ''function'') 12 12,
              sample_chunk ''class A: pass'' (Some ''class'') 3 4,
              sample_chunk ''def g(): pass'' (Some ''function'') 20 21]
           @ [sample_chunk (replicate 250 CHR ''a'') (Some ''function'') 30 40])
     = Inr ([] @ [m] @ [sample_chunk (replicate 250 CHR ''a'') (Some ''function'') 30 40])
     \<and> start_line m = 3 \<and> end_line m = 21
     \<and> dict_get (metadata m) ''original_chunks'' = Some (PInt 3)"
    by (simp add: sample_chunk_def)
  then show ?thesis using h by blast
qed

subsection \<open>Chunking a file: failure policy\<close>

lemma create_merged_nonempty: "cs \<noteq> [] \<Longrightarrow> \<exists>m. create_merged_chunk cs = Inr m"
  by (cases cs) (simp_all add: create_merged_chunk_def py_min_def py_max_def)

lemma flush_group_total: "\<exists>out. flush_group merged grp = Inr out"
proof (cases grp)
  case Nil
  then show ?thesis by (simp add: flush_group_def)
next
  case (Cons c cs)
  then obtain m where "create_merged_chunk grp = Inr m"
    using create_merged_nonempty [of grp] by auto
  then show ?thesis using Cons by (cases cs) (simp_all add: flush_group_def)
qed

lemma merge_loop_total: "\<exists>out. merge_loop cfg cs merged grp = Inr out"
proof (induction cs arbitrary: merged grp)
  case Nil
  then show ?case by (simp add: flush_group_total)
next
  case (Cons c cs)
  obtain out where "flush_group merged grp = Inr out"
    using flush_group_total by blast
  then show ?case using Cons.IH by simp
qed

lemma post_process_total: "\<exists>out. post_process_chunks cfg cs = Inr out"
  by (simp add: post_process_chunks_def merge_small_chunks_def merge_loop_total Let_def)

lemma fallback_total: "\<exists>cs. fallback_chunking env cfg fp = Inr cs"
  by (simp add: fallback_chunking_def split: sum.splits)

lemma chunk_file_parse_failed:
  "parse_failed env fp \<Longrightarrow> chunk_file env cfg fp = fallback_chunking env cfg fp"
  using fallback_total [of env cfg fp]
  by (auto simp: parse_failed_def chunk_file_def chunk_file_try_def
      split: sum.splits option.splits)

lemma sliding_window_hello:
  "sliding_window_chunking default_config ''hello'' fp = [window_chunk fp [''hello''] 1 1]"
proof -
  have s: "split_lines ''hello'' = [''hello'']"
    by (rule split_lines_no_newline) (simp add: newline_def)
  show ?thesis
    by (simp add: sliding_window_chunking_def s window_step_def default_config_def Let_def
        del: split_lines.simps)
qed

text \<open>
  Claim C5 (failure policy of \<open>chunk_file\<close>).  \<open>chunk_file\<close> always returns a sequence
  of chunks and never an exception.  When no parser is available or parsing fails, the
  result is the sliding-window chunking of the raw file text, and the empty sequence
  when the file cannot be read either.
\<close>

theorem chunk_file_never_raises:
  "(\<exists>cs. chunk_file env cfg fp = Inr cs)
   \<and> (parse_failed env fp \<longrightarrow>
        chunk_file env cfg fp =
          (case open_read env fp of
             Inl e \<Rightarrow> Inr []
           | Inr text \<Rightarrow> Inr (sliding_window_chunking cfg text fp)))"
proof
  show "\<exists>cs. chunk_file env cfg fp = Inr cs"
    using fallback_total [of env cfg fp]
    by (cases "chunk_file_try env cfg fp") (auto simp: chunk_file_def)
next
  show "parse_failed env fp \<longrightarrow>
        chunk_file env cfg fp =
          (case open_read env fp of
             Inl e \<Rightarrow> Inr []
           | Inr text \<Rightarrow> Inr (sliding_window_chunking cfg text fp))"
    by (auto simp: chunk_file_parse_failed fallback_chunking_def)
qed

theorem chunk_file_never_raises_witness:
  "parse_failed no_parser_env ''notes.txt''
   \<and> chunk_file no_parser_env default_config ''notes.txt''
       = Inr (sliding_window_chunking default_config ''hello'' ''notes.txt'')
   \<and> parse_failed no_parser_env ''gone.bin''
   \<and> chunk_file no_parser_env default_config ''gone.bin'' = Inr []"
  using chunk_file_never_raises [of no_parser_env default_config "''notes.txt''"]
    chunk_file_never_raises [of no_parser_env default_config "''gone.bin''"]
  by (simp add: parse_failed_def no_parser_env_def)

text \<open>
  Claim C10 (post-processing and the fallback path).  When no parser is available or
  parsing fails, \<open>chunk_file\<close> returns what the fallback path returns, which for a
  readable file is the output of the sliding window as it is: nothing is dropped,
  trimmed or merged.  When the file is parsed successfully and the selected strategy
  yields chunks \<open>cs\<close>, \<open>chunk_file\<close> returns those chunks after post-processing.
\<close>

theorem fallback_bypasses_post_processing:
  "(parse_failed env fp \<longrightarrow>
      chunk_file env cfg fp = fallback_chunking env cfg fp
      \<and> (\<forall>raw. open_read env fp = Inr raw \<longrightarrow>
            chunk_file env cfg fp = Inr (sliding_window_chunking cfg raw fp)))
   \<and> (create_parser_from_file env fp = Inr (Some p) \<and> parse_file p fp = Inr result
        \<and> success result \<and> read_file_content p fp = Inr src
        \<and> apply_strategy cfg result src fp = Inr cs \<longrightarrow>
      chunk_file env cfg fp = post_process_chunks cfg cs)"
proof (intro conjI impI allI)
  assume "parse_failed env fp"
  then show "chunk_file env cfg fp = fallback_chunking env cfg fp"
    by (rule chunk_file_parse_failed)
next
  fix raw
  assume "parse_failed env fp" and "open_read env fp = Inr raw"
  then show "chunk_file env cfg fp = Inr (sliding_window_chunking cfg raw fp)"
    by (simp add: chunk_file_parse_failed fallback_chunking_def)
next
  assume h: "create_parser_from_file env fp = Inr (Some p) \<and> parse_file p fp = Inr result
        \<and> success result \<and> read_file_content p fp = Inr src
        \<and> apply_strategy cfg result src fp = Inr cs"
  obtain out where "post_process_chunks cfg cs = Inr out"
    using post_process_total by blast
  then show "chunk_file env cfg fp = post_process_chunks cfg cs"
    using h by (simp add: chunk_file_def chunk_file_try_def)
qed

theorem fallback_bypasses_post_processing_witness:
  "parse_failed no_parser_env ''notes.txt''
   \<and> open_read no_parser_env ''notes.txt'' = Inr ''hello''
   \<and> chunk_file no_parser_env default_config ''notes.txt''
       = Inr [window_chunk ''notes.txt'' [''hello''] 1 1]
   \<and> post_process_chunks default_config [window_chunk ''notes.txt'' [''hello''] 1 1] = Inr []
   \<and> create_parser_from_file parser_env ''pkg/util.py'' = Inr (Some sample_parser)
   \<and> parse_file sample_parser ''pkg/util.py'' = Inr sample_result
   \<and> success sample_result
   \<and> read_file_content sample_parser ''pkg/util.py'' = Inr ''def f(): return 1''
   \<and> apply_strategy default_config sample_result ''def f(): return 1'' ''pkg/util.py''
       = Inr (hybrid_chunking default_config sample_result ''def f(): return 1'' ''pkg/util.py'')
   \<and> chunk_file parser_env default_config ''pkg/util.py''
       = post_process_chunks default_config
           (hybrid_chunking default_config sample_result ''def f(): return 1'' ''pkg/util.py'')"
proof -
  have a: "parse_failed no_parser_env ''notes.txt''"
    and b: "open_read no_parser_env ''notes.txt'' = Inr ''hello''"
    by (simp_all add: parse_failed_def no_parser_env_def)
  have c: "post_process_chunks default_config [window_chunk ''notes.txt'' [''hello''] 1 1] = Inr []"
    by (simp add: post_process_chunks_def merge_small_chunks_def flush_group_def
        window_chunk_def default_config_def)
  have d: "create_parser_from_file parser_env ''pkg/util.py'' = Inr (Some sample_parser)
     \<and> parse_file sample_parser ''pkg/util.py'' = Inr sample_result
     \<and> success sample_result
     \<and> read_file_content sample_parser ''pkg/util.py'' = Inr ''def f(): return 1''
     \<and> apply_strategy default_config sample_result ''def f(): return 1'' ''pkg/util.py''
         = Inr (hybrid_chunking default_config sample_result ''def f(): return 1'' ''pkg/util.py'')"
    by (simp add: parser_env_def sample_parser_def sample_result_def apply_strategy_def
        default_config_def)
  show ?thesis
    using a b c d
      fallback_bypasses_post_processing [of no_parser_env "''notes.txt''" default_config]
      fallback_bypasses_post_processing [of parser_env "''pkg/util.py''" default_config
        sample_parser sample_result "''def f(): return 1''"
        "hybrid_chunking default_config sample_result ''def f(): return 1'' ''pkg/util.py''"]
    by (simp add: sliding_window_hello fallback_chunking_def no_parser_env_def)
qed

subsection \<open>Vector index: identity and idempotence\<close>

lemma dict_set_keys:
  "map fst (dict_set k v d) = (if k \<in> set (map fst d) then map fst d else map fst d @ [k])"
  by (induction d) auto

lemma dict_set_lookup: "dict_get (dict_set k v d) k = Some v"
  by (induction d) (auto simp: dict_get_def)

lemma dict_set_lookup_other: "j \<noteq> k \<Longrightarrow> dict_get (dict_set k v d) j = dict_get d j"
  by (induction d) (auto simp: dict_get_def)

lemma dict_set_idem: "dict_set k v (dict_set k v d) = dict_set k v d"
  by (induction d) auto

lemma dict_set_length:
  "length (dict_set k v d) = (if k \<in> set (map fst d) then length d else Suc (length d))"
  by (induction d) auto

lemma dict_set_distinct: "distinct (map fst d) \<Longrightarrow> distinct (map fst (dict_set k v d))"
  by (simp add: dict_set_keys)

lemma distinct_one_record:
  "distinct (map fst d) \<Longrightarrow> k \<in> set (map fst d) \<Longrightarrow> length (filter (\<lambda>p. fst p = k) d) = 1"
proof (induction d)
  case Nil
  then show ?case by simp
next
  case (Cons p d)
  show ?case
  proof (cases "fst p = k")
    case True
    then have "k \<notin> set (map fst d)" using Cons.prems(1) by auto
    then have "filter (\<lambda>p. fst p = k) d = []" by (auto simp: filter_empty_conv)
    then show ?thesis using True by simp
  next
    case False
    then show ?thesis using Cons by auto
  qed
qed

lemma generate_chunk_id_cong:
  "file_path c = file_path c' \<Longrightarrow> start_line c = start_line c' \<Longrightarrow> end_line c = end_line c'
   \<Longrightarrow> element_name c = element_name c' \<Longrightarrow> element_type c = element_type c'
   \<Longrightarrow> generate_chunk_id lib c = generate_chunk_id lib c'"
  by (simp add: generate_chunk_id_def)

lemma add_single:
  "add_embeddings lib coll [r] =
     (True, dict_set (generate_chunk_id lib (chunk r)) (snd (prepare_record lib r)) coll)"
  by (simp add: add_embeddings_def collection_add_def prepare_record_def)

text \<open>
  Claim C1 (identity and idempotence of add).  The id of a record is a function of the
  chunk's file path, first line, last line, element name and element type.  For a
  collection with at most one record per id, adding a record succeeds; if its id is
  already present the record under that id is overwritten where it stands (same ids in
  the same order, same count, every other record untouched); adding the same record a
  second time changes nothing, so the count after the second add equals the count after
  the first and exactly one record is stored under the id.
\<close>

theorem add_is_idempotent:
  assumes "distinct (map fst coll)"
  shows "(\<forall>c c'. file_path c = file_path c' \<and> start_line c = start_line c'
            \<and> end_line c = end_line c' \<and> element_name c = element_name c'
            \<and> element_type c = element_type c'
            \<longrightarrow> generate_chunk_id lib c = generate_chunk_id lib c')
     \<and> (let rid = generate_chunk_id lib (chunk r);
             first_add = add_embeddings lib coll [r];
             second_add = add_embeddings lib (snd first_add) [r]
         in fst first_add \<and> fst second_add
            \<and> (rid \<in> set (map fst coll) \<longrightarrow>
                  map fst (snd first_add) = map fst coll
                  \<and> collection_count (snd first_add) = collection_count coll)
            \<and> dict_get (snd first_add) rid = Some (snd (prepare_record lib r))
            \<and> (\<forall>j. j \<noteq> rid \<longrightarrow> dict_get (snd first_add) j = dict_get coll j)
            \<and> snd second_add = snd first_add
            \<and> collection_count (snd second_add) = collection_count (snd first_add)
            \<and> length (filter (\<lambda>p. fst p = rid) (snd second_add)) = 1)"
proof -
  define rid where "rid = generate_chunk_id lib (chunk r)"
  define rec where "rec = snd (prepare_record lib r)"
  define c1 where "c1 = dict_set rid rec coll"
  have a1: "add_embeddings lib coll [r] = (True, c1)"
    by (simp add: add_single c1_def rid_def rec_def)
  have a2: "add_embeddings lib c1 [r] = (True, c1)"
    by (simp add: add_single c1_def rid_def rec_def dict_set_idem)
  have d1: "distinct (map fst c1)" unfolding c1_def using assms by (rule dict_set_distinct)
  have m1: "rid \<in> set (map fst c1)" by (simp add: c1_def dict_set_keys)
  have one: "length (filter (\<lambda>p. fst p = rid) c1) = 1"
    using d1 m1 by (rule distinct_one_record)
  have keep: "rid \<in> set (map fst coll) \<longrightarrow>
      map fst c1 = map fst coll \<and> collection_count c1 = collection_count coll"
    by (simp add: c1_def dict_set_keys dict_set_length collection_count_def)
  have look: "dict_get c1 rid = Some rec"
    by (simp add: c1_def dict_set_lookup)
  have other: "\<forall>j. j \<noteq> rid \<longrightarrow> dict_get c1 j = dict_get coll j"
    by (simp add: c1_def dict_set_lookup_other)
  have ids: "\<forall>c c'. file_path c = file_path c' \<and> start_line c = start_line c'
            \<and> end_line c = end_line c' \<and> element_name c = element_name c'
            \<and> element_type c = element_type c'
            \<longrightarrow> generate_chunk_id lib c = generate_chunk_id lib c'"
    by (simp add: generate_chunk_id_def)
  have second: "let rid' = generate_chunk_id lib (chunk r);
             first_add = add_embeddings lib coll [r];
             second_add = add_embeddings lib (snd first_add) [r]
         in fst first_add \<and> fst second_add
            \<and> (rid' \<in> set (map fst coll) \<longrightarrow>
                  map fst (snd first_add) = map fst coll
                  \<and> collection_count (snd first_add) = collection_count coll)
            \<and> dict_get (snd first_add) rid' = Some (snd (prepare_record lib r))
            \<and> (\<forall>j. j \<noteq> rid' \<longrightarrow> dict_get (snd first_add) j = dict_get coll j)
            \<and> snd second_add = snd first_add
            \<and> collection_count (snd second_add) = collection_count (snd first_add)
            \<and> length (filter (\<lambda>p. fst p = rid') (snd second_add)) = 1"
    unfolding Let_def rid_def [symmetric] rec_def [symmetric] a1 snd_conv fst_conv a2
    using one keep look other by blast
  show ?thesis using ids second by blast
qed

theorem add_is_idempotent_witness:
  "distinct (map fst sample_collection)
   \<and> generate_chunk_id sample_lib (chunk sample_embedding) \<in> set (map fst sample_collection)
   \<and> collection_count (snd (add_embeddings sample_lib sample_collection [sample_embedding])) = 2
   \<and> collection_count
        (snd (add_embeddings sample_lib
               (snd (add_embeddings sample_lib sample_collection [sample_embedding]))
               [sample_embedding])) = 2
   \<and> dict_get (snd (add_embeddings sample_lib sample_collection [sample_embedding]))
        (generate_chunk_id sample_lib (chunk sample_embedding))
       = Some (snd (prepare_record sample_lib sample_embedding))"
proof -
  have neq: "generate_chunk_id sample_lib (chunk sample_embedding) \<noteq> ''other-id''"
    by (simp add: generate_chunk_id_def sample_lib_def)
  then have d: "distinct (map fst sample_collection)"
    by (simp add: sample_collection_def)
  have m: "generate_chunk_id sample_lib (chunk sample_embedding) \<in> set (map fst sample_collection)"
    by (simp add: sample_collection_def)
  have n: "collection_count sample_collection = 2"
    by (simp add: sample_collection_def collection_count_def)
  note t = add_is_idempotent [OF d, of sample_lib sample_embedding, THEN conjunct2,
      unfolded Let_def]
  from t m have c1: "collection_count (snd (add_embeddings sample_lib sample_collection [sample_embedding]))
      = collection_count sample_collection"
    by blast
  from t have c2: "collection_count
        (snd (add_embeddings sample_lib
               (snd (add_embeddings sample_lib sample_collection [sample_embedding]))
               [sample_embedding]))
      = collection_count (snd (add_embeddings sample_lib sample_collection [sample_embedding]))"
    by blast
  from t have l: "dict_get (snd (add_embeddings sample_lib sample_collection [sample_embedding]))
        (generate_chunk_id sample_lib (chunk sample_embedding))
       = Some (snd (prepare_record sample_lib sample_embedding))"
    by blast
  show ?thesis
    using d m n c1 c2 l by simp
qed

subsection \<open>Search: similarity, threshold and ranks\<close>

lemma convert_hits_ok:
  "list_all reconstructible hits \<Longrightarrow>
   \<exists>rs. convert_hits i hits = Inr rs
     \<and> length rs = length hits
     \<and> map similarity_score rs = map score_of hits
     \<and> map rank rs = map (\<lambda>j. i + 1 + int j) [0..<length hits]
     \<and> map (\<lambda>r. Inr (result_chunk r)) rs = map reconstruct_chunk hits"
proof (induction hits arbitrary: i)
  case Nil
  then show ?case by simp
next
  case (Cons h hs)
  from Cons.prems obtain c where c: "reconstruct_chunk h = Inr c"
    by (auto simp: reconstructible_def split: sum.splits)
  from Cons.prems have "list_all reconstructible hs" by simp
  from Cons.IH [OF this, of "i + 1"] obtain rs where rs:
    "convert_hits (i + 1) hs = Inr rs" "length rs = length hs"
    "map similarity_score rs = map score_of hs"
    "map rank rs = map (\<lambda>j. i + 1 + 1 + int j) [0..<length hs]"
    "map (\<lambda>r. Inr (result_chunk r)) rs = map reconstruct_chunk hs"
    by auto
  have shift: "map (\<lambda>j. i + 1 + int j) [0..<Suc (length hs)]
      = (i + 1) # map (\<lambda>j. i + 1 + 1 + int j) [0..<length hs]"
    by (simp add: upt_conv_Cons map_Suc_upt [symmetric] del: upt_Suc)
  show ?case
    using c rs shift by (simp add: score_of_def del: upt_Suc)
qed

lemma filter_sorted_prefix:
  fixes f :: "'a \<Rightarrow> real"
  assumes "sorted (map f xs)"
  shows "filter (\<lambda>x. 1 - f x \<ge> t) xs = take (length (filter (\<lambda>x. 1 - f x \<ge> t) xs)) xs"
  using assms
proof (induction xs)
  case Nil
  then show ?case by simp
next
  case (Cons x xs)
  show ?case
  proof (cases "1 - f x \<ge> t")
    case True
    then show ?thesis using Cons by simp
  next
    case False
    have "\<forall>y \<in> set xs. \<not> 1 - f y \<ge> t"
      using False Cons.prems by fastforce
    then have "filter (\<lambda>x. 1 - f x \<ge> t) xs = []" by (simp add: filter_empty_conv)
    then show ?thesis using False by simp
  qed
qed

lemma filter_sorted_suffix:
  fixes f :: "'a \<Rightarrow> real"
  assumes "sorted (map f xs)"
  shows "list_all (\<lambda>x. 1 - f x < t) (drop (length (filter (\<lambda>x. 1 - f x \<ge> t) xs)) xs)"
  using assms
proof (induction xs)
  case Nil
  then show ?case by simp
next
  case (Cons x xs)
  show ?case
  proof (cases "1 - f x \<ge> t")
    case True
    then show ?thesis using Cons by simp
  next
    case False
    have all: "\<forall>y \<in> set xs. \<not> 1 - f y \<ge> t"
      using False Cons.prems by fastforce
    then have "filter (\<lambda>x. 1 - f x \<ge> t) xs = []" by (simp add: filter_empty_conv)
    then show ?thesis using False all by (simp add: list_all_iff not_le)
  qed
qed

lemma zip_same: "zip (map f xs) (map g xs) = map (\<lambda>x. (f x, g x)) xs"
  by (induction xs) auto

lemma ranks_from_one: "map (\<lambda>j. 0 + 1 + int j) [0..<n] = map int [1..<Suc n]"
proof -
  have "map int [1..<Suc n] = map int (map Suc [0..<n])"
    by (simp only: map_Suc_upt One_nat_def)
  then show ?thesis by (simp add: comp_def)
qed

text \<open>
  Claim C2 (search results).  Let the backend, called with the query text, the cap
  \<open>min (query.max_results) (index.max_results)\<close> and the query's predicate, return
  rows that all rebuild into chunks.  Then search returns, in the backend's order, the
  rows whose similarity is at least the threshold; the row at position \<open>i\<close> carries
  rank \<open>i\<close> and similarity one minus its distance.  When the rows come in ascending
  distance (descending similarity), the returned results are the first \<open>k\<close> rows, their
  ranks are \<open>1, \<dots>, k\<close>, and every later row is below the threshold.
\<close>

theorem search_thresholds_and_ranks:
  assumes "backend (query_text q) (min (query_max_results q) (max_results cfg)) (where_clause q)
             = Inr hits"
    and "list_all reconstructible hits"
  shows "\<exists>rs. search cfg backend q = Inr rs
     \<and> map (\<lambda>r. (rank r, similarity_score r)) rs
         = filter (\<lambda>(k, s). s \<ge> similarity_threshold q)
             (zip (map int [1..<Suc (length hits)]) (map score_of hits))
     \<and> (sorted (map hit_distance hits) \<longrightarrow>
           map rank rs = map int [1..<Suc (length rs)]
           \<and> map similarity_score rs = map score_of (take (length rs) hits)
           \<and> list_all (\<lambda>h. score_of h < similarity_threshold q) (drop (length rs) hits))"
proof -
  from convert_hits_ok [OF assms(2), of 0] obtain found where found0:
    "convert_hits 0 hits = Inr found" "length found = length hits"
    "map similarity_score found = map score_of hits"
    "map rank found = map (\<lambda>j. 0 + 1 + int j) [0..<length hits]"
    by blast
  note found = found0(1-3) found0(4) [unfolded ranks_from_one]
  define t where "t = similarity_threshold q"
  define rs where "rs = filter (\<lambda>r. similarity_score r \<ge> t) found"
  have res: "search cfg backend q = Inr rs"
    using assms(1) found(1) by (simp add: search_def rs_def t_def)
  have pairs: "map (\<lambda>r. (rank r, similarity_score r)) found
      = zip (map int [1..<Suc (length hits)]) (map score_of hits)"
    using found(3,4) zip_same [of rank found similarity_score] by simp
  have general: "map (\<lambda>r. (rank r, similarity_score r)) rs
         = filter (\<lambda>(k, s). s \<ge> t)
             (zip (map int [1..<Suc (length hits)]) (map score_of hits))"
    unfolding pairs [symmetric] rs_def by (simp add: filter_map comp_def)
  have ordered: "map rank rs = map int [1..<Suc (length rs)]
           \<and> map similarity_score rs = map score_of (take (length rs) hits)
           \<and> list_all (\<lambda>h. score_of h < t) (drop (length rs) hits)"
    if srt: "sorted (map hit_distance hits)"
  proof -
    have dist: "map (\<lambda>r. 1 - similarity_score r) found = map hit_distance hits"
    proof -
      have "map (\<lambda>r. 1 - similarity_score r) found = map (\<lambda>s. 1 - s) (map similarity_score found)"
        by (simp add: comp_def)
      also have "\<dots> = map hit_distance hits"
        unfolding found(3) by (simp add: comp_def score_of_def)
      finally show ?thesis .
    qed
    have "sorted (map (\<lambda>r. 1 - similarity_score r) found)" using srt dist by simp
    from filter_sorted_prefix [OF this, of t]
    have pre: "rs = take (length rs) found" by (simp add: rs_def)
    have le: "length rs \<le> length hits"
      using found(2) length_filter_le [of "\<lambda>r. similarity_score r \<ge> t" found]
      by (simp add: rs_def)
    have "map rank rs = map rank (take (length rs) found)"
      by (rule arg_cong [OF pre])
    also have "\<dots> = map int (take (length rs) [1..<Suc (length hits)])"
      by (simp only: take_map [symmetric] found(4))
    also have "take (length rs) [1..<Suc (length hits)] = [1..<Suc (length rs)]"
      using le by (simp add: take_upt del: upt_Suc)
    finally have r1: "map rank rs = map int [1..<Suc (length rs)]" .
    have "map similarity_score rs = map similarity_score (take (length rs) found)"
      by (rule arg_cong [OF pre])
    also have "\<dots> = map score_of (take (length rs) hits)"
      by (simp only: take_map [symmetric] found(3))
    finally have r2: "map similarity_score rs = map score_of (take (length rs) hits)" .
    have len: "length (filter (\<lambda>h. 1 - hit_distance h \<ge> t) hits) = length rs"
    proof -
      have "length rs = length (filter (\<lambda>s. s \<ge> t) (map similarity_score found))"
        by (simp add: rs_def filter_map comp_def)
      also have "\<dots> = length (filter (\<lambda>h. 1 - hit_distance h \<ge> t) hits)"
        unfolding found(3) by (simp add: filter_map comp_def score_of_def)
      finally show ?thesis by simp
    qed
    have r3: "list_all (\<lambda>h. score_of h < t) (drop (length rs) hits)"
      using filter_sorted_suffix [OF srt, of t] unfolding len score_of_def .
    show ?thesis using r1 r2 r3 by blast
  qed
  show ?thesis
    using res general ordered unfolding t_def by blast
qed

lemma sample_hits_ok: "list_all reconstructible sample_hits"
  by (simp add: sample_hits_def reconstructible_def reconstruct_chunk_def dict_get_def
      required_int_def optional_member_def chunk_type_values_def language_values_def
      element_type_values_def)

theorem search_thresholds_and_ranks_witness:
  "sample_backend (query_text sample_query)
      (min (query_max_results sample_query) (max_results sample_config))
      (where_clause sample_query) = Inr sample_hits
   \<and> list_all reconstructible sample_hits
   \<and> sorted (map hit_distance sample_hits)
   \<and> (\<exists>rs. search sample_config sample_backend sample_query = Inr rs
          \<and> map (\<lambda>r. (rank r, similarity_score r)) rs = [(1, 9 / 10)])"
proof -
  have b: "sample_backend (query_text sample_query)
      (min (query_max_results sample_query) (max_results sample_config))
      (where_clause sample_query) = Inr sample_hits"
    by (simp add: sample_backend_def sample_query_def sample_config_def where_clause_def
        matches_def sample_hits_def)
  have s: "sorted (map hit_distance sample_hits)"
    by (simp add: sample_hits_def)
  have z: "filter (\<lambda>(k, s). s \<ge> similarity_threshold sample_query)
             (zip (map int [1..<Suc (length sample_hits)]) (map score_of sample_hits))
           = [(1, 9 / 10)]"
    by (simp add: sample_hits_def sample_query_def score_of_def upt_conv_Cons)
  note t = search_thresholds_and_ranks [of sample_backend sample_query sample_config sample_hits,
      OF b sample_hits_ok]
  from t obtain rs where r:
    "search sample_config sample_backend sample_query = Inr rs
     \<and> map (\<lambda>r. (rank r, similarity_score r)) rs
         = filter (\<lambda>(k, s). s \<ge> similarity_threshold sample_query)
             (zip (map int [1..<Suc (length sample_hits)]) (map score_of sample_hits))
     \<and> (sorted (map hit_distance sample_hits) \<longrightarrow>
           map rank rs = map int [1..<Suc (length rs)]
           \<and> map similarity_score rs = map score_of (take (length rs) sample_hits)
           \<and> list_all (\<lambda>h. score_of h < similarity_threshold sample_query)
                (drop (length rs) sample_hits))" ..
  have e: "\<exists>rs. search sample_config sample_backend sample_query = Inr rs
          \<and> map (\<lambda>r. (rank r, similarity_score r)) rs = [(1, 9 / 10)]"
  proof (intro exI conjI)
    show "search sample_config sample_backend sample_query = Inr rs"
      by (rule r [THEN conjunct1])
    show "map (\<lambda>r. (rank r, similarity_score r)) rs = [(1, 9 / 10)]"
      unfolding r [THEN conjunct2, THEN conjunct1] by (rule z)
  qed
  show ?thesis by (intro conjI b sample_hits_ok s e)
qed

subsection \<open>Search: filter precedence\<close>

text \<open>
  Claim C4 as stated fails: the element-kind predicate is used only when the query
  lists exactly one element kind.  A query with two element kinds and a language is
  sent with the language predicate, and it is answered differently from the same query
  without the language filter (which is sent with no predicate at all).
\<close>

theorem filter_precedence_counterexample:
  "query_element_types mixed_query = [''function'', ''class'']
   \<and> query_language mixed_query = Some ''python''
   \<and> where_clause mixed_query = Some (''language'', PStr ''python'')
   \<and> where_clause (mixed_query\<lparr>query_language := None\<rparr>) = None
   \<and> result_paths (search sample_config sample_backend mixed_query) = Inr [''pkg/util.py'']
   \<and> result_paths (search sample_config sample_backend (mixed_query\<lparr>query_language := None\<rparr>))
       = Inr [''pkg/util.py'', ''web/app.js'']"
  by (simp add: mixed_query_def where_clause_def get_language_value_def search_def
      sample_backend_def sample_config_def matches_def sample_hits_def result_paths_def
      reconstruct_chunk_def dict_get_def
      required_int_def optional_member_def chunk_type_values_def language_values_def
      element_type_values_def)

text \<open>
  Claim C4, amended.  For every search query that supplies exactly one element kind
  (with or without a language filter), the one metadata predicate sent to the backend is
  the element-kind predicate, and the query is answered identically to the same query
  with the language filter removed.
\<close>

theorem element_kind_takes_precedence:
  assumes "query_element_types q = [t]"
  shows "where_clause q = Some (''element_type'', PStr t)
     \<and> where_clause (q\<lparr>query_language := None\<rparr>) = where_clause q
     \<and> search cfg backend q = search cfg backend (q\<lparr>query_language := None\<rparr>)"
  using assms by (simp add: where_clause_def search_def split: sum.splits)

theorem element_kind_takes_precedence_witness:
  "query_element_types class_query = [''class'']
   \<and> query_language class_query = Some ''python''
   \<and> where_clause class_query = Some (''element_type'', PStr ''class'')
   \<and> search sample_config sample_backend class_query
       = search sample_config sample_backend (class_query\<lparr>query_language := None\<rparr>)"
proof -
  have h: "query_element_types class_query = [''class'']"
    by (simp add: class_query_def)
  have l: "query_language class_query = Some ''python''"
    by (simp add: class_query_def)
  note t = element_kind_takes_precedence [OF h, of sample_config sample_backend]
  show ?thesis
    by (intro conjI h l t [THEN conjunct1] t [THEN conjunct2, THEN conjunct2])
qed

subsection \<open>Stored metadata\<close>

lemma sanitize_scalar: "is_scalar (sanitize_metadata_value lib v)"
  by (cases v) (simp_all add: sanitize_metadata_value_def is_scalar_def)

lemma store_item_scalars:
  "list_all (\<lambda>p. is_scalar (snd p)) md \<Longrightarrow>
   list_all (\<lambda>p. is_scalar (snd p)) (store_metadata_item lib key v md)"
proof -
  have set_ok: "list_all (\<lambda>p. is_scalar (snd p)) d \<Longrightarrow> is_scalar w \<Longrightarrow>
      list_all (\<lambda>p. is_scalar (snd p)) (dict_set k w d)" for d k w
    by (induction d) auto
  assume "list_all (\<lambda>p. is_scalar (snd p)) md"
  then show ?thesis
    by (simp add: store_metadata_item_def Let_def set_ok sanitize_scalar)
qed

lemma record_metadata_scalars: "list_all (\<lambda>p. is_scalar (snd p)) (record_metadata lib r)"
proof -
  have base: "list_all (\<lambda>p. is_scalar (snd p)) (base_metadata r)"
    by (simp add: base_metadata_def is_scalar_def)
  have fold_ok: "list_all (\<lambda>p. is_scalar (snd p)) md \<Longrightarrow>
      list_all (\<lambda>p. is_scalar (snd p))
        (fold (\<lambda>(key, v) md. store_metadata_item lib key v md) items md)" for items md
    by (induction items arbitrary: md) (auto simp: store_item_scalars)
  show ?thesis unfolding record_metadata_def by (rule fold_ok [OF base])
qed

text \<open>
  Claim C7 as stated fails: a boolean \<open>False\<close>, the number \<open>0\<close> and the empty string
  are not stored unchanged under their key; \<open>add_embeddings\<close> writes a sanitized value
  only if it is truthy, so these values are dropped.
\<close>

theorem falsy_scalars_dropped_counterexample:
  "dict_get (record_metadata sample_lib
       (embedding_with [(''semantic_group'', PBool False), (''group_size'', PInt 0),
                        (''docstring'', PStr '''')])) ''semantic_group'' = None
   \<and> dict_get (record_metadata sample_lib
       (embedding_with [(''semantic_group'', PBool False), (''group_size'', PInt 0),
                        (''docstring'', PStr '''')])) ''group_size'' = None
   \<and> dict_get (record_metadata sample_lib
       (embedding_with [(''semantic_group'', PBool False), (''group_size'', PInt 0),
                        (''docstring'', PStr '''')])) ''docstring'' = None"
  by (simp add: record_metadata_def embedding_with_def base_metadata_def dict_get_def
      store_metadata_item_def sanitize_metadata_value_def)

lemma store_item_lookup:
  "dict_get (store_metadata_item lib k v md) j
     = (if j = k \<and> is_stored lib k v then Some (sanitize_metadata_value lib v)
        else dict_get md j)"
  by (auto simp: store_metadata_item_def is_stored_def Let_def dict_set_lookup
      dict_set_lookup_other)

lemma fold_store_lookup:
  "distinct (map fst items) \<Longrightarrow>
   dict_get (fold (\<lambda>(key, v) md. store_metadata_item lib key v md) items md) j
     = (case map_of items j of
          None \<Rightarrow> dict_get md j
        | Some v \<Rightarrow> if is_stored lib j v then Some (sanitize_metadata_value lib v)
                    else dict_get md j)"
proof (induction items arbitrary: md)
  case Nil
  then show ?case by simp
next
  case (Cons p items)
  obtain k v where p: "p = (k, v)" by (cases p)
  from Cons.prems p have d: "distinct (map fst items)" and nk: "k \<notin> set (map fst items)"
    by simp_all
  have none: "map_of items k = None"
    using nk by (simp add: map_of_eq_None_iff)
  show ?case
  proof (cases "j = k")
    case True
    then show ?thesis
      using Cons.IH [OF d, of "store_metadata_item lib k v md"] p none
      by (simp add: store_item_lookup)
  next
    case False
    then show ?thesis
      using Cons.IH [OF d, of "store_metadata_item lib k v md"] p
      by (simp add: store_item_lookup split: option.splits)
  qed
qed

lemma record_metadata_lookup:
  assumes "distinct (map fst (metadata (chunk r)))" and "(key, v) \<in> set (metadata (chunk r))"
  shows "dict_get (record_metadata lib r) key
     = (if is_stored lib key v then Some (sanitize_metadata_value lib v)
        else dict_get (base_metadata r) key)"
proof -
  have "map_of (metadata (chunk r)) key = Some v"
    using assms by simp
  then show ?thesis
    unfolding record_metadata_def using fold_store_lookup [OF assms(1)] by simp
qed

text \<open>
  Claim C7, amended.  Let the chunk's metadata have distinct keys (it is a dictionary)
  and let \<open>(key, v)\<close> be one of its pairs.  In the metadata that the add operation
  hands to the backend for the record: if \<open>v\<close> is a string, number or boolean that is
  truthy and is not one of the strings \<open>null\<close>, \<open>[]\<close>, \<open>{}\<close>, \<open>empty\<close>, it is stored
  unchanged under \<open>key\<close>; if \<open>v\<close> is a non-empty list or mapping, its string
  serialization is stored under \<open>key\<close> (Python never makes that serialization empty or
  equal to one of the four strings); if \<open>v\<close> is falsy (\<open>None\<close>, the empty string, zero,
  \<open>False\<close>, an empty list or mapping) or one of the four strings, the pair is dropped:
  \<open>key\<close> holds what the record's own fields put there, if anything; and every stored
  value is a scalar.
\<close>

theorem metadata_reduced_to_scalars:
  assumes "distinct (map fst (metadata (chunk r)))" and "(key, v) \<in> set (metadata (chunk r))"
  shows "(is_scalar v \<and> truthy v \<and> v \<notin> set (map PStr sentinels) \<longrightarrow>
            dict_get (record_metadata lib r) key = Some v)
     \<and> (is_container v \<and> truthy v \<and> str_of lib v \<noteq> [] \<and> str_of lib v \<notin> set sentinels \<longrightarrow>
            dict_get (record_metadata lib r) key = Some (PStr (str_of lib v)))
     \<and> (\<not> truthy v \<or> v \<in> set (map PStr sentinels) \<longrightarrow>
            dict_get (record_metadata lib r) key = dict_get (base_metadata r) key)
     \<and> list_all (\<lambda>p. is_scalar (snd p)) (record_metadata lib r)
     \<and> stored_metadata (snd (prepare_record lib r)) = record_metadata lib r"
proof (intro conjI impI)
  assume "is_scalar v \<and> truthy v \<and> v \<notin> set (map PStr sentinels)"
  then have "is_stored lib key v \<and> sanitize_metadata_value lib v = v"
    by (cases v) (auto simp: is_stored_def sanitize_metadata_value_def is_scalar_def sentinels_def)
  then show "dict_get (record_metadata lib r) key = Some v"
    by (simp add: record_metadata_lookup [OF assms])
next
  assume "is_container v \<and> truthy v \<and> str_of lib v \<noteq> [] \<and> str_of lib v \<notin> set sentinels"
  then have "is_stored lib key v \<and> sanitize_metadata_value lib v = PStr (str_of lib v)"
    by (cases v)
      (auto simp: is_stored_def sanitize_metadata_value_def is_container_def sentinels_def)
  then show "dict_get (record_metadata lib r) key = Some (PStr (str_of lib v))"
    by (simp add: record_metadata_lookup [OF assms])
next
  assume "\<not> truthy v \<or> v \<in> set (map PStr sentinels)"
  then have "\<not> is_stored lib key v"
    by (cases v) (auto simp: is_stored_def sanitize_metadata_value_def sentinels_def)
  then show "dict_get (record_metadata lib r) key = dict_get (base_metadata r) key"
    by (simp add: record_metadata_lookup [OF assms])
next
  show "list_all (\<lambda>p. is_scalar (snd p)) (record_metadata lib r)"
    by (rule record_metadata_scalars)
next
  show "stored_metadata (snd (prepare_record lib r)) = record_metadata lib r"
    by (simp add: prepare_record_def)
qed

theorem metadata_reduced_to_scalars_witness:
  "distinct (map fst (metadata (chunk (embedding_with sample_metadata))))
   \<and> (''complexity_score'', PFloat 15) \<in> set (metadata (chunk (embedding_with sample_metadata)))
   \<and> (is_scalar (PFloat 15) \<and> truthy (PFloat 15) \<and> PFloat 15 \<notin> set (map PStr sentinels))
   \<and> dict_get (record_metadata sample_lib (embedding_with sample_metadata)) ''complexity_score''
       = Some (PFloat 15)
   \<and> (''inheritance'', PList [PStr ''Base'']) \<in> set (metadata (chunk (embedding_with sample_metadata)))
   \<and> (is_container (PList [PStr ''Base'']) \<and> truthy (PList [PStr ''Base''])
        \<and> str_of sample_lib (PList [PStr ''Base'']) \<noteq> []
        \<and> str_of sample_lib (PList [PStr ''Base'']) \<notin> set sentinels)
   \<and> dict_get (record_metadata sample_lib (embedding_with sample_metadata)) ''inheritance''
       = Some (PStr ''<str>'')
   \<and> (''return_type'', PNone) \<in> set (metadata (chunk (embedding_with sample_metadata)))
   \<and> \<not> truthy PNone
   \<and> dict_get (record_metadata sample_lib (embedding_with sample_metadata)) ''return_type'' = None
   \<and> (''docstring'', PStr ''null'') \<in> set (metadata (chunk (embedding_with sample_metadata)))
   \<and> PStr ''null'' \<in> set (map PStr sentinels)
   \<and> dict_get (record_metadata sample_lib (embedding_with sample_metadata)) ''docstring'' = None
   \<and> stored_metadata (snd (prepare_record sample_lib (embedding_with sample_metadata)))
       = record_metadata sample_lib (embedding_with sample_metadata)"
proof -
  have md: "metadata (chunk (embedding_with sample_metadata)) = sample_metadata"
    by (simp add: embedding_with_def)
  have d: "distinct (map fst (metadata (chunk (embedding_with sample_metadata))))"
    unfolding md by (simp add: sample_metadata_def)
  have m1: "(''complexity_score'', PFloat 15) \<in> set (metadata (chunk (embedding_with sample_metadata)))"
    and m2: "(''inheritance'', PList [PStr ''Base'']) \<in> set (metadata (chunk (embedding_with sample_metadata)))"
    and m3: "(''return_type'', PNone) \<in> set (metadata (chunk (embedding_with sample_metadata)))"
    and m4: "(''docstring'', PStr ''null'') \<in> set (metadata (chunk (embedding_with sample_metadata)))"
    unfolding md by (simp_all add: sample_metadata_def)
  have a: "is_scalar (PFloat 15) \<and> truthy (PFloat 15) \<and> PFloat 15 \<notin> set (map PStr sentinels)"
    by (simp add: is_scalar_def sentinels_def)
  have b: "is_container (PList [PStr ''Base'']) \<and> truthy (PList [PStr ''Base''])
        \<and> str_of sample_lib (PList [PStr ''Base'']) \<noteq> []
        \<and> str_of sample_lib (PList [PStr ''Base'']) \<notin> set sentinels"
    by (simp add: is_container_def sentinels_def sample_lib_def)
  have c0: "\<not> truthy PNone" by simp
  have e0: "PStr ''null'' \<in> set (map PStr sentinels)"
    by (simp add: sentinels_def)
  have c: "\<not> truthy PNone \<or> PNone \<in> set (map PStr sentinels)"
    using c0 by (rule disjI1)
  have e: "\<not> truthy (PStr ''null'') \<or> PStr ''null'' \<in> set (map PStr sentinels)"
    using e0 by (rule disjI2)
  have s: "str_of sample_lib (PList [PStr ''Base'']) = ''<str>''"
    by (simp add: sample_lib_def)
  have base3: "dict_get (base_metadata (embedding_with sample_metadata)) ''return_type'' = None"
    and base4: "dict_get (base_metadata (embedding_with sample_metadata)) ''docstring'' = None"
    by (simp_all add: base_metadata_def dict_get_def)
  note t1 = metadata_reduced_to_scalars [OF d m1, of sample_lib, THEN conjunct1, rule_format, OF a]
  note t2 = metadata_reduced_to_scalars [OF d m2, of sample_lib, THEN conjunct2, THEN conjunct1,
      rule_format, OF b, unfolded s]
  note t3 = metadata_reduced_to_scalars [OF d m3, of sample_lib, THEN conjunct2, THEN conjunct2,
      THEN conjunct1, rule_format, OF c, unfolded base3]
  note t4 = metadata_reduced_to_scalars [OF d m4, of sample_lib, THEN conjunct2, THEN conjunct2,
      THEN conjunct1, rule_format, OF e, unfolded base4]
  note t5 = metadata_reduced_to_scalars [OF d m1, of sample_lib, THEN conjunct2, THEN conjunct2,
      THEN conjunct2, THEN conjunct2]
  show ?thesis
    by (intro conjI d m1 a [THEN conjunct1] a [THEN conjunct2, THEN conjunct1]
        a [THEN conjunct2, THEN conjunct2] t1 m2
        b [THEN conjunct1] b [THEN conjunct2, THEN conjunct1]
        b [THEN conjunct2, THEN conjunct2, THEN conjunct1]
        b [THEN conjunct2, THEN conjunct2, THEN conjunct2] t2 m3 c0 t3 m4 e0 t4 t5)
qed

subsection \<open>Embedding a single chunk\<close>

lemma embed_chunk_failure:
  "fst (embed_chunk_try ops cfg mname cache c) = Inl e \<Longrightarrow>
   embed_chunk ops cfg mname cache c
     = (Inl (TypeError ''__init__() got an unexpected keyword argument chunk_info''),
        snd (embed_chunk_try ops cfg mname cache c))"
  by (cases "embed_chunk_try ops cfg mname cache c")
    (simp add: embed_chunk_def EmbeddingError_init_def)

text \<open>
  Claim C9 (failure of the single-item embed operation).  A failure inside
  \<open>embed_chunk\<close> is meant to surface as an \<open>EmbeddingError\<close> naming the chunk and
  carrying its file path.  The handler builds the error with the keyword \<open>chunk_info\<close>,
  which the constructor of \<open>EmbeddingError\<close> does not accept: when the model call fails,
  \<open>embed_chunk\<close> raises \<open>TypeError\<close>.  The cache is left as it was.
\<close>

theorem embed_chunk_raises_type_error:
  "embed_chunk failing_ops \<lparr> normalize_embeddings = True, cache_embeddings = True \<rparr>
     ''all-MiniLM-L6-v2'' [] (sample_chunk ''def f(): pass'' (Some ''function'') 1 1)
   = (Inl (TypeError ''__init__() got an unexpected keyword argument chunk_info''), [])"
  by (simp add: embed_chunk_def embed_chunk_try_def failing_ops_def EmbeddingError_init_def
      dict_get_def Let_def)

end
